theory Spec2Isabelle
  imports Complex_Main "HOL-Library.Char_ord" "HOL-Library.List_Lexorder"
    "HOL-Library.Product_Lexorder"
begin

section \<open>obsgit: reconciliation between a build-service registry and a git tree\<close>

text \<open>
  A shallow embedding of the reconciliation code of obsgit (\<^verbatim>\<open>exporter.py\<close>,
  \<^verbatim>\<open>importer.py\<close>, \<^verbatim>\<open>storageobs.py\<close>, \<^verbatim>\<open>storagelfs.py\<close>,
  \<^verbatim>\<open>asyncobs.py\<close>, \<^verbatim>\<open>git.py\<close>).

  Conventions of the embedding.
  \<^item> A Python \<^verbatim>\<open>str\<close> and a Python \<^verbatim>\<open>bytes\<close> are both a \<open>char list\<close>; a text is
    identified with its UTF-8 bytes, so \<^verbatim>\<open>encode("utf-8")\<close> is the identity.
  \<^item> A path is the list of its components; \<^verbatim>\<open>a / b\<close> is \<open>a @ [b]\<close>.
  \<^item> A Python \<^verbatim>\<open>set\<close> built from a list is the duplicate-free list \<open>remdups xs\<close>. Python
    leaves the iteration order of a set open; the embedding iterates in one fixed order,
    and every theorem speaks of \<open>set (\<dots>)\<close> or of properties that hold in any order.
  \<^item> The calls an engine makes on its collaborators (registry adapter, tree adapter,
    content store) are recorded as a list of events. \<^verbatim>\<open>asyncio.gather\<close> starts all
    its operations and raises in the awaiting coroutine when one of them raises;
    which operations raise is a parameter \<open>fails\<close> of the embedding.
  \<^item> Progress messages written with \<^verbatim>\<open>print\<close> are left out, apart from the error
    message of the link policy.
\<close>

subsection \<open>Basic types\<close>

type_synonym bytes = "char list"
type_synonym path = "string list"
type_synonym filename = string
type_synonym md5 = string
type_synonym project = string
type_synonym package = string

text \<open>The file system as the code reads it: regular files and their contents.\<close>

type_synonym fs = "path \<rightharpoonup> bytes"

datatype error =
    FileNotFoundError
  | KeyError
  | AssertionError
  | AttributeError
  | TypeError
  | OperationFailed

subsection \<open>The binary classifier (\<^verbatim>\<open>Exporter.is_binary\<close>)\<close>

definition BINARY :: "string set" where
  "BINARY = {''.xz'', ''.gz'', ''.bz2'', ''.zip'', ''.gem'', ''.tgz'', ''.png'', ''.pdf'',
     ''.jar'', ''.oxt'', ''.whl'', ''.rpm''}"

definition NON_BINARY_EXCEPTIONS :: "string set" where
  "NON_BINARY_EXCEPTIONS = {''.obscpio''}"

definition NON_BINARY :: "string set" where
  "NON_BINARY = {''.changes'', ''.spec'', ''.patch'', ''.diff'', ''.conf'', ''.yml'',
     ''.keyring'', ''.sig'', ''.sh'', ''.dif'', ''.txt'', ''.service'', ''.asc'', ''.cabal'',
     ''.desktop'', ''.xml'', ''.pom'', ''.SUSE'', ''.in'', ''.obsinfo'', ''.1'', ''.init'',
     ''.kiwi'', ''.rpmlintrc'', ''.rules'', ''.py'', ''.sysconfig'', ''.logrotate'', ''.pl'',
     ''.dsc'', ''.c'', ''.install'', ''.8'', ''.md'', ''.html'', ''.script'', ''.xml'',
     ''.test'', ''.cfg'', ''.el'', ''.pamd'', ''.sign'', ''.macros''}"

text \<open>
  \<^verbatim>\<open>pathlib.Path(p).suffix\<close>: the part of the final component from its last dot on,
  when that dot is neither the first nor the last character of the component; the empty
  string otherwise.
\<close>

definition path_name :: "path \<Rightarrow> string" where
  "path_name p = (if p = [] then [] else last p)"

definition name_suffix :: "string \<Rightarrow> string" where
  "name_suffix name =
     (let after = rev (takeWhile (\<lambda>c. c \<noteq> CHR ''.'') (rev name)) in
      if length after = length name then []
      else if length after + 1 = length name then []
      else if after = [] then []
      else CHR ''.'' # after)"

definition path_suffix :: "path \<Rightarrow> string" where
  "path_suffix p = name_suffix (path_name p)"

text \<open>What \<^verbatim>\<open>is_binary\<close> does to the file, in order.\<close>

datatype probe = Stat | Read_chunk | Decode_utf8 | Chardet_detect

text \<open>
  The two library calls are parameters: \<open>utf8_decodes chunk\<close> says that
  \<^verbatim>\<open>chunk.decode("utf-8")\<close> raises no \<^verbatim>\<open>UnicodeDecodeError\<close>, and
  \<open>chardet_confidence chunk\<close> is \<^verbatim>\<open>chardet.detect(chunk)["confidence"]\<close>. The threshold
  \<^verbatim>\<open>0.8\<close> is compared as a real number: no double lies between 0.8 and the double
  nearest to it, so the comparison of doubles and the comparison of reals agree.
\<close>

definition is_binary ::
  "(bytes \<Rightarrow> bool) \<Rightarrow> (bytes \<Rightarrow> real) \<Rightarrow> fs \<Rightarrow> path \<Rightarrow> (error + bool) \<times> probe list" where
  "is_binary utf8_decodes chardet_confidence tree filename =
     (let suffix = path_suffix filename in
      if suffix \<in> BINARY \<or> suffix \<in> NON_BINARY_EXCEPTIONS then (Inr True, [])
      else if suffix \<in> NON_BINARY then (Inr False, [])
      else
        (case tree filename of
          None \<Rightarrow> (Inl FileNotFoundError, [Stat])
        | Some content \<Rightarrow>
            if length content < 5 * 1024 then (Inr False, [Stat])
            else
              (let chunk = take (4 * 1024) content in
               if utf8_decodes chunk then (Inr False, [Stat, Read_chunk, Decode_utf8])
               else (Inr (chardet_confidence chunk < 0.8),
                     [Stat, Read_chunk, Decode_utf8, Chardet_detect]))))"

subsection \<open>Python sets as duplicate-free lists\<close>

definition set_minus :: "'a list \<Rightarrow> 'a list \<Rightarrow> 'a list" where
  "set_minus xs ys = filter (\<lambda>x. x \<notin> set ys) xs"

definition names_of :: "(filename \<times> md5) list \<Rightarrow> filename list" where
  "names_of files_md5 = remdups (map fst files_md5)"

subsection \<open>Calls on the collaborators\<close>

datatype upload_source = From_file path | From_data bytes

text \<open>
  \<open>Obs_download project path filename_path rev\<close> is
  \<^verbatim>\<open>obs.download(project, *path, filename_path=..., rev=...)\<close>, and likewise for upload and
  delete; \<open>None\<close> for \<open>rev\<close> is a call without that parameter (or with
  \<^verbatim>\<open>rev=None\<close>). \<open>Obs_command project path cmd entries user comment\<close> is
  \<^verbatim>\<open>obs.command(project, *path, cmd=..., data=..., user=..., comment=...)\<close> where the data is
  a \<^verbatim>\<open>directory\<close> element with one \<^verbatim>\<open>entry\<close> (name, md5) per element of \<open>entries\<close>; that
  data is never empty, so \<^verbatim>\<open>_command\<close> always posts it.
  \<open>Obs_transfer p k f p' k' f' to_obs params\<close> is
  \<^verbatim>\<open>obs.transfer(p, k, f, p', k', f', to_obs, **params)\<close>; the adapter \<open>to_obs\<close> is
  given by its URL.
  \<open>Git_delete package filename\<close> is \<^verbatim>\<open>git.delete(package, filename)\<close>. The class
  \<^verbatim>\<open>Git\<close> has no method that commits.
  \<open>Storage_store_files\<close> and \<open>Storage_commit\<close> are the calls
  \<^verbatim>\<open>storage.store_files\<close> and \<^verbatim>\<open>storage.commit\<close> of an export; the call
  \<^verbatim>\<open>storage.transfer\<close> of an import is followed into the two stores.
  \<open>Write_manifest\<close> rewrites a pointer manifest \<^verbatim>\<open>.obs/files\<close>.
\<close>

datatype event =
    Obs_download project "string list" path "string option"
  | Obs_upload project "string list" upload_source "string option"
  | Obs_delete project "string list" "string option"
  | Obs_command project "string list" string "(filename \<times> md5) list" string string
  | Obs_transfer project package filename project package filename string
      "(string \<times> string) list"
  | Git_delete package "filename option"
  | Storage_store_files package "(filename \<times> md5) list"
  | Storage_commit
  | Write_manifest path "(filename \<times> md5) list"

text \<open>
  \<^verbatim>\<open>await asyncio.gather(*ops)\<close> without \<^verbatim>\<open>return_exceptions\<close>: every operation is
  started, and the awaiting coroutine gets the exception when one of them raises.
\<close>

definition gather :: "(event \<Rightarrow> bool) \<Rightarrow> event list \<Rightarrow> error + unit" where
  "gather fails ops = (if list_ex fails ops then Inl OperationFailed else Inr ())"

subsection \<open>Export (\<^verbatim>\<open>Exporter\<close>)\<close>

record exporter =
  git_path :: path
  git_prefix :: path
  skip_project_meta :: bool
  skip_all_project_meta :: bool
  skip_all_package_meta :: bool

text \<open>
  What an export reads from its collaborators: the registry's package list and, per
  package, the result of \<^verbatim>\<open>obs.files_md5_revision\<close>; the tree's package list and, per
  package, the result of \<^verbatim>\<open>git.files_md5\<close>; whether the \<^verbatim>\<open>.obs\<close> directories exist; the
  content store's index as the export of a package sees it; what \<^verbatim>\<open>is_binary\<close> answers
  for a downloaded file; and which calls raise.
\<close>

record export_world =
  obs_packages :: "package list"
  obs_files_md5_revision :: "package \<Rightarrow> (filename \<times> md5) list \<times> string option"
  git_packages :: "package list"
  git_files_md5 :: "package \<Rightarrow> (filename \<times> md5) list"
  project_obs_dir_exists :: bool
  package_obs_dir_exists :: "package \<Rightarrow> bool"
  storage_index :: "package \<Rightarrow> md5 set"
  binary :: "path \<Rightarrow> bool"
  export_fails :: "event \<Rightarrow> bool"

text \<open>
  The sets \<^verbatim>\<open>files_download\<close> and \<^verbatim>\<open>files_delete\<close> of \<^verbatim>\<open>Exporter.package\<close>, from
  the sets \<^verbatim>\<open>files_md5_obs\<close> and \<^verbatim>\<open>files_md5_git\<close> and the index of the content store.
\<close>

definition files_download ::
  "(filename \<times> md5) list \<Rightarrow> (filename \<times> md5) list \<Rightarrow> md5 set \<Rightarrow> filename list" where
  "files_download files_md5_obs files_md5_git index =
     remdups (map fst
       (filter (\<lambda>(filename, md5). md5 \<notin> index) (set_minus files_md5_obs files_md5_git)))"

definition files_delete ::
  "(filename \<times> md5) list \<Rightarrow> (filename \<times> md5) list \<Rightarrow> filename list" where
  "files_delete files_md5_obs files_md5_git =
     set_minus (names_of files_md5_git) (names_of files_md5_obs)"

definition export_package_metadata :: "exporter \<Rightarrow> project \<Rightarrow> package \<Rightarrow> event list" where
  "export_package_metadata ex project package =
     map (\<lambda>meta. Obs_download project [package, meta]
                    (git_prefix ex @ [package, ''.obs'', meta]) None)
       [''_meta'', ''_attribute'', ''_history'']"

text \<open>
  \<^verbatim>\<open>Exporter.package\<close> in its three phases: the metadata (gathered), the downloads and
  deletions (gathered), and the call of \<^verbatim>\<open>storage.store_files\<close>.
\<close>

definition export_package_meta :: "exporter \<Rightarrow> export_world \<Rightarrow> project \<Rightarrow> package \<Rightarrow> event list" where
  "export_package_meta ex w project package =
     (if \<not> (package_obs_dir_exists w package \<and> skip_all_package_meta ex)
      then export_package_metadata ex project package else [])"

definition export_package_ops :: "exporter \<Rightarrow> export_world \<Rightarrow> project \<Rightarrow> package \<Rightarrow> event list" where
  "export_package_ops ex w project package =
     (let package_path = git_prefix ex @ [package];
          files_md5_obs = remdups (fst (obs_files_md5_revision w package));
          revision = snd (obs_files_md5_revision w package);
          files_md5_git = remdups (git_files_md5 w package);
          download = files_download files_md5_obs files_md5_git (storage_index w package);
          delete = files_delete files_md5_obs files_md5_git
      in
      map (\<lambda>filename. Obs_download project [package, filename]
                          (package_path @ [filename]) revision) download
      @ map (\<lambda>filename. Git_delete package (Some filename)) delete)"

definition export_package_store :: "exporter \<Rightarrow> export_world \<Rightarrow> project \<Rightarrow> package \<Rightarrow> event" where
  "export_package_store ex w project package =
     (let package_path = git_prefix ex @ [package];
          files_md5_obs = remdups (fst (obs_files_md5_revision w package));
          files_md5_git = remdups (git_files_md5 w package);
          download = files_download files_md5_obs files_md5_git (storage_index w package);
          files_md5_store =
            filter (\<lambda>(filename, md5).
                      filename \<in> set download \<and> binary w (package_path @ [filename]))
              files_md5_obs;
          files_md5_obs_store =
            filter (\<lambda>(filename, md5). md5 \<in> storage_index w package) files_md5_obs
      in Storage_store_files package (files_md5_store @ files_md5_obs_store))"

definition export_package ::
  "exporter \<Rightarrow> export_world \<Rightarrow> project \<Rightarrow> package \<Rightarrow> (error + unit) \<times> event list" where
  "export_package ex w project package =
     (let metadata = export_package_meta ex w project package;
          ops = export_package_ops ex w project package;
          store = export_package_store ex w project package
      in
      case gather (export_fails w) metadata of
        Inl e \<Rightarrow> (Inl e, metadata)
      | Inr _ \<Rightarrow>
          (case gather (export_fails w) ops of
             Inl e \<Rightarrow> (Inl e, metadata @ ops)
           | Inr _ \<Rightarrow>
               (if export_fails w store then Inl OperationFailed else Inr (),
                metadata @ ops @ [store])))"

definition export_project_metadata :: "exporter \<Rightarrow> project \<Rightarrow> event list" where
  "export_project_metadata ex project =
     map (\<lambda>meta. Obs_download project [meta] (git_path ex @ [''.obs'', meta]) None)
       ([''_project'', ''_attribute'', ''_config'', ''_pattern'']
        @ (if \<not> skip_project_meta ex then [''_meta''] else []))"

text \<open>
  \<^verbatim>\<open>Exporter.project\<close>. The exports of the packages and the deletions of the packages
  that left the registry are gathered together; the embedding lists their calls package
  by package. \<^verbatim>\<open>storage.commit()\<close> is awaited after that gather.
\<close>

definition export_project_meta :: "exporter \<Rightarrow> export_world \<Rightarrow> project \<Rightarrow> event list" where
  "export_project_meta ex w project =
     (if \<not> (project_obs_dir_exists w \<and> skip_all_project_meta ex)
      then export_project_metadata ex project else [])"

definition export_project ::
  "exporter \<Rightarrow> export_world \<Rightarrow> project \<Rightarrow> (error + unit) \<times> event list" where
  "export_project ex w project =
     (let packages_obs = remdups (obs_packages w);
          packages_git = remdups (git_packages w);
          packages_delete = set_minus packages_git packages_obs;
          metadata = export_project_meta ex w project
      in
      case gather (export_fails w) metadata of
        Inl e \<Rightarrow> (Inl e, metadata)
      | Inr _ \<Rightarrow>
          (let runs = map (export_package ex w project) packages_obs;
               deletes = map (\<lambda>package. Git_delete package None) packages_delete;
               body = concat (map snd runs) @ deletes
           in
           if list_ex (\<lambda>run. isl (fst run)) runs \<or> list_ex (export_fails w) deletes
           then (Inl OperationFailed, metadata @ body)
           else (if export_fails w Storage_commit then Inl OperationFailed else Inr (),
                 metadata @ body @ [Storage_commit])))"

subsection \<open>The registry-backed content store (\<^verbatim>\<open>StorageOBS\<close>)\<close>

record storage_obs =
  so_project :: project
  so_package :: package
  so_index :: "md5 set"
  so_sync :: bool

definition storageobs_transfer ::
  "storage_obs \<Rightarrow> md5 \<Rightarrow> project \<Rightarrow> package \<Rightarrow> filename \<Rightarrow> string \<Rightarrow> (string \<times> string) list
     \<Rightarrow> error + event list" where
  "storageobs_transfer st md5 project package filename obs params =
     (if md5 \<in> so_index st
      then Inr [Obs_transfer (so_project st) (so_package st) md5 project package filename
                  obs params]
      else Inl AssertionError)"

definition storageobs_store :: "storage_obs \<Rightarrow> path \<Rightarrow> md5 \<Rightarrow> storage_obs \<times> event" where
  "storageobs_store st filename_path md5 =
     (st\<lparr>so_index := insert md5 (so_index st), so_sync := False\<rparr>,
      Obs_upload (so_project st) [so_package st, md5] (From_file filename_path)
        (Some ''repository''))"

fun storageobs_store_all ::
  "storage_obs \<Rightarrow> path \<Rightarrow> (filename \<times> md5) list \<Rightarrow> storage_obs \<times> event list" where
  "storageobs_store_all st package_path [] = (st, [])"
| "storageobs_store_all st package_path ((filename, md5) # rest) =
     (let (st1, upload) = storageobs_store st (package_path @ [filename]) md5;
          (st2, uploads) = storageobs_store_all st1 package_path rest
      in (st2, upload # uploads))"

text \<open>
  \<^verbatim>\<open>StorageOBS.store_files\<close>, with the tree it looks into and the prefix of the tree
  adapter. The pointer manifest is written with the lines of \<^verbatim>\<open>sorted(files_md5)\<close>.
\<close>

definition storageobs_store_files ::
  "(event \<Rightarrow> bool) \<Rightarrow> path \<Rightarrow> fs \<Rightarrow> storage_obs \<Rightarrow> package \<Rightarrow> (filename \<times> md5) list
     \<Rightarrow> (error + unit) \<times> storage_obs \<times> event list" where
  "storageobs_store_files fails prefix tree st package files_md5 =
     (let package_path = prefix @ [package];
          files_md5_exists =
            filter (\<lambda>(filename, md5). tree (package_path @ [filename]) \<noteq> None) files_md5;
          (st', uploads) = storageobs_store_all st package_path files_md5_exists;
          deletes = map (\<lambda>(filename, md5). Git_delete package (Some filename)) files_md5_exists;
          manifest = Write_manifest (package_path @ [''.obs'', ''files'']) (sort files_md5)
      in
      case gather fails uploads of
        Inl e \<Rightarrow> (Inl e, st', uploads)
      | Inr _ \<Rightarrow>
          (case gather fails deletes of
            Inl e \<Rightarrow> (Inl e, st', uploads @ deletes)
          | Inr _ \<Rightarrow>
              (if fails manifest then Inl OperationFailed else Inr (),
               st', uploads @ deletes @ [manifest])))"

subsection \<open>The git LFS content store (\<^verbatim>\<open>StorageLFS\<close>)\<close>

record storage_lfs =
  lfs_index :: "md5 set"
  lfs_tracked :: "string list"

text \<open>\<^verbatim>\<open>StorageLFS.__init__\<close>: the index is empty, the tracked patterns come from git.\<close>

definition storagelfs_init :: "string list \<Rightarrow> storage_lfs" where
  "storagelfs_init tracked = \<lparr>lfs_index = {}, lfs_tracked = remdups tracked\<rparr>"

text \<open>
  \<^verbatim>\<open>StorageLFS.transfer(self, md5, project, package, filename, obs)\<close> has the body
  \<^verbatim>\<open>pass\<close> and takes no keyword parameters: a call that passes one is a
  \<^verbatim>\<open>TypeError\<close>.
\<close>

definition storagelfs_transfer ::
  "storage_lfs \<Rightarrow> md5 \<Rightarrow> project \<Rightarrow> package \<Rightarrow> filename \<Rightarrow> string \<Rightarrow> (string \<times> string) list
     \<Rightarrow> error + event list" where
  "storagelfs_transfer st md5 project package filename obs params =
     (if params = [] then Inr [] else Inl TypeError)"

text \<open>The two variants behind the one name \<^verbatim>\<open>storage\<close> of the engines.\<close>

datatype storage = StorageOBS storage_obs | StorageLFS storage_lfs

fun index_of :: "storage \<Rightarrow> md5 set" where
  "index_of (StorageOBS st) = so_index st"
| "index_of (StorageLFS st) = lfs_index st"

fun storage_transfer ::
  "storage \<Rightarrow> md5 \<Rightarrow> project \<Rightarrow> package \<Rightarrow> filename \<Rightarrow> string \<Rightarrow> (string \<times> string) list
     \<Rightarrow> error + event list" where
  "storage_transfer (StorageOBS st) md5 project package filename obs params =
     storageobs_transfer st md5 project package filename obs params"
| "storage_transfer (StorageLFS st) md5 project package filename obs params =
     storagelfs_transfer st md5 project package filename obs params"

subsection \<open>Registry listings (\<^verbatim>\<open>AsyncOBS._xml\<close>, \<^verbatim>\<open>packages\<close>, \<^verbatim>\<open>files_md5_revision\<close>)\<close>

text \<open>
  A parsed XML document, as far as the code looks at it: the attributes \<^verbatim>\<open>rev\<close> and
  \<^verbatim>\<open>project\<close> of the root, the \<^verbatim>\<open>name\<close> and \<^verbatim>\<open>md5\<close> attributes of the \<^verbatim>\<open>entry\<close>
  elements in document order, and the \<^verbatim>\<open>xsrcmd5\<close> attribute of the \<^verbatim>\<open>linkinfo\<close>
  elements in document order. \<open>None\<close> is an attribute that is absent.
\<close>

record xml_doc =
  xml_rev :: "string option"
  xml_project :: "string option"
  xml_entries :: "(string option \<times> string option) list"
  xml_linkinfo :: "string option list"

text \<open>
  The registry as the adapter reaches it: the GET of a URL with query parameters,
  followed by the parse of the body, returns a document or raises an exception of
  class \<^verbatim>\<open>Exception\<close>.
\<close>

type_synonym 'e registry = "string \<Rightarrow> (string \<times> string option) list \<Rightarrow> 'e + xml_doc"

record asyncobs =
  obs_url :: string
  obs_username :: string
  obs_link :: string

text \<open>\<^verbatim>\<open>ET.fromstring('<directory rev="latest"/>')\<close>\<close>

definition empty_directory :: xml_doc where
  "empty_directory =
     \<lparr>xml_rev = Some ''latest'', xml_project = None, xml_entries = [], xml_linkinfo = []\<rparr>"

definition asyncobs_xml ::
  "'e registry \<Rightarrow> asyncobs \<Rightarrow> string \<Rightarrow> (string \<times> string option) list \<Rightarrow> xml_doc" where
  "asyncobs_xml registry obs url_path params =
     (case registry (obs_url obs @ ''/'' @ url_path) params of
        Inl e \<Rightarrow> empty_directory
      | Inr root' \<Rightarrow> root')"

definition asyncobs_packages :: "'e registry \<Rightarrow> asyncobs \<Rightarrow> project \<Rightarrow> string option list" where
  "asyncobs_packages registry obs project =
     map fst (xml_entries (asyncobs_xml registry obs (''source/'' @ project) []))"

text \<open>Python's truth value of \<^verbatim>\<open>project_link\<close>: neither \<^verbatim>\<open>None\<close> nor the empty string.\<close>

definition truthy :: "string option \<Rightarrow> bool" where
  "truthy v = (case v of None \<Rightarrow> False | Some x \<Rightarrow> x \<noteq> [])"

definition link_error_message :: "project \<Rightarrow> package \<Rightarrow> string option \<Rightarrow> string" where
  "link_error_message project package project_link =
     ''ERROR: Link '' @ project @ ''/'' @ package @ '' pointing outside (''
       @ (case project_link of None \<Rightarrow> ''None'' | Some x \<Rightarrow> x) @ '')''"

text \<open>
  \<^verbatim>\<open>AsyncOBS.files_md5_revision\<close>: the result, or the \<^verbatim>\<open>AttributeError\<close> of
  \<^verbatim>\<open>root.find(".//linkinfo").get(...)\<close> when there is no \<^verbatim>\<open>linkinfo\<close> element, together
  with the lines printed. The variable \<^verbatim>\<open>root\<close> is \<open>root'\<close> here.
\<close>

definition files_md5_revision ::
  "'e registry \<Rightarrow> asyncobs \<Rightarrow> project \<Rightarrow> package
     \<Rightarrow> (error + (string option \<times> string option) list \<times> string option) \<times> string list" where
  "files_md5_revision registry obs project package =
     (let url_path = ''/source/'' @ project @ ''/'' @ package;
          root' = asyncobs_xml registry obs url_path [(''rev'', Some ''latest'')];
          revision = xml_rev root'
      in
      if list_ex (\<lambda>entry. fst entry = Some ''_link'') (xml_entries root') then
        (let project_link =
               xml_project (asyncobs_xml registry obs (url_path @ ''/_link'')
                 [(''rev'', Some ''latest'')])
         in
         if truthy project_link \<and> project_link \<noteq> Some project \<and> obs_link obs = ''never''
         then (Inr ([], None), [link_error_message project package project_link])
         else if (truthy project_link \<and> project_link \<noteq> Some project \<and> obs_link obs = ''auto'')
                 \<or> obs_link obs = ''always''
         then
           (case xml_linkinfo root' of
              [] \<Rightarrow> (Inl AttributeError, [])
            | xsrcmd5 # _ \<Rightarrow>
                (Inr (xml_entries (asyncobs_xml registry obs url_path [(''rev'', xsrcmd5)]),
                      xsrcmd5), []))
         else (Inr (xml_entries root', revision), []))
      else (Inr (xml_entries root', revision), []))"

subsection \<open>Import (\<^verbatim>\<open>Importer\<close>)\<close>

text \<open>
  The importer with what it holds of its adapters: the paths of \<^verbatim>\<open>Git\<close>, the table
  \<^verbatim>\<open>first_entry\<close> filled by \<^verbatim>\<open>analyze_history\<close> (commit id, author name, author email,
  commit date per package path relative to the repository), the id of the head commit,
  and the user name of the registry adapter.
\<close>

record 'dt importer =
  imp_git_path :: path
  imp_git_prefix :: path
  imp_first_entry :: "path \<rightharpoonup> string \<times> string \<times> string \<times> 'dt"
  imp_head_hash :: string
  imp_username :: string
  imp_skip_all_package_meta :: bool

text \<open>\<^verbatim>\<open>p.relative_to(base)\<close> for a path \<open>p\<close> below \<open>base\<close>.\<close>

definition relative_to :: "path \<Rightarrow> path \<Rightarrow> path" where
  "relative_to p base = drop (length base) p"

definition last_revision_to ::
  "'dt importer \<Rightarrow> package \<Rightarrow> error + string \<times> string \<times> string \<times> 'dt" where
  "last_revision_to imp package =
     (case imp_first_entry imp (relative_to (imp_git_prefix imp @ [package]) (imp_git_path imp)) of
        None \<Rightarrow> Inl KeyError
      | Some revision \<Rightarrow> Inr revision)"

definition newline :: string where
  "newline = [CHR 0x0A]"

text \<open>
  \<^verbatim>\<open>Importer.changes_git_entry\<close>. The library call
  \<^verbatim>\<open>commit_date.strftime("%a %b %d %H:%M:%S UTC %Y")\<close> is the parameter \<open>strftime\<close>.
  The method is memoised per package; the table it reads does not change during an
  import, so the memoised value is the computed one.
\<close>

definition changes_git_entry :: "('dt \<Rightarrow> string) \<Rightarrow> 'dt importer \<Rightarrow> package \<Rightarrow> error + string" where
  "changes_git_entry strftime imp package =
     (case last_revision_to imp package of
        Inl e \<Rightarrow> Inl e
      | Inr (commit_hash, author, email, commit_date) \<Rightarrow>
          Inr (replicate 67 CHR ''-'' @ newline @ strftime commit_date @ '' - '' @ author
               @ '' <'' @ email @ ''>'' @ newline @ newline @ ''- Last git synchronization: ''
               @ commit_hash @ newline @ newline))"

text \<open>
  \<^verbatim>\<open>Importer.prepend_changes\<close>: the file is opened for reading, the entry is computed
  and the content is read. The tree is returned as the call leaves it.
\<close>

definition prepend_changes ::
  "('dt \<Rightarrow> string) \<Rightarrow> 'dt importer \<Rightarrow> fs \<Rightarrow> path \<Rightarrow> package \<Rightarrow> (error + bytes) \<times> fs" where
  "prepend_changes strftime imp tree filename_path package =
     (case tree filename_path of
        None \<Rightarrow> (Inl FileNotFoundError, tree)
      | Some raw \<Rightarrow>
          (case changes_git_entry strftime imp package of
             Inl e \<Rightarrow> (Inl e, tree)
           | Inr entry \<Rightarrow> (Inr (entry @ raw), tree)))"

text \<open>
  What the import of a package reads from its collaborators: whether the package exists
  in the registry, the file list of \<^verbatim>\<open>obs.files_md5_revision\<close>, the result of
  \<^verbatim>\<open>git.files_md5\<close>, the tree, the lines of the pointer manifest \<^verbatim>\<open>.obs/files\<close> split into
  (filename, md5) when that file exists, the text that \<^verbatim>\<open>replace_project\<close> makes of the
  package's \<^verbatim>\<open>_meta\<close>, the content store, the URL of the registry adapter, and which
  calls on the registry raise.
\<close>

record import_world =
  iw_obs_exists :: bool
  iw_obs_files_md5 :: "(filename \<times> md5) list"
  iw_git_files_md5 :: "(filename \<times> md5) list"
  iw_tree :: fs
  iw_pointer :: "(filename \<times> md5) list option"
  iw_meta :: bytes
  iw_storage :: storage
  iw_obs_url :: string
  iw_fails :: "event \<Rightarrow> bool"

text \<open>
  \<^verbatim>\<open>Importer._git_files_md5\<close>: the hash of a file whose suffix is \<^verbatim>\<open>.changes\<close> is the
  hash of its content with the entry prepended. \<^verbatim>\<open>hashlib.md5(...).hexdigest()\<close> is the
  parameter \<open>md5_hex\<close>.
\<close>

fun importer_git_files_md5 ::
  "('dt \<Rightarrow> string) \<Rightarrow> (bytes \<Rightarrow> md5) \<Rightarrow> 'dt importer \<Rightarrow> fs \<Rightarrow> package
     \<Rightarrow> (filename \<times> md5) list \<Rightarrow> error + (filename \<times> md5) list" where
  "importer_git_files_md5 strftime md5_hex imp tree package [] = Inr []"
| "importer_git_files_md5 strftime md5_hex imp tree package ((filename, md5) # rest) =
     (let filename_path = imp_git_prefix imp @ [package, filename] in
      if path_suffix filename_path = ''.changes'' then
        (case fst (prepend_changes strftime imp tree filename_path package) of
           Inl e \<Rightarrow> Inl e
         | Inr data \<Rightarrow>
             (case importer_git_files_md5 strftime md5_hex imp tree package rest of
                Inl e \<Rightarrow> Inl e
              | Inr files_md5 \<Rightarrow> Inr ((filename, md5_hex data) # files_md5)))
      else
        (case importer_git_files_md5 strftime md5_hex imp tree package rest of
           Inl e \<Rightarrow> Inl e
         | Inr files_md5 \<Rightarrow> Inr ((filename, md5) # files_md5)))"

definition endswith :: "string \<Rightarrow> string \<Rightarrow> bool" where
  "endswith s suffix =
     (length suffix \<le> length s \<and> drop (length s - length suffix) s = suffix)"

text \<open>The three sets of \<^verbatim>\<open>Importer.package\<close>.\<close>

definition files_md5_upload ::
  "(filename \<times> md5) list \<Rightarrow> (filename \<times> md5) list \<Rightarrow> (filename \<times> md5) list" where
  "files_md5_upload files_md5_git files_md5_obs = set_minus files_md5_git files_md5_obs"

definition files_md5_transfer ::
  "(filename \<times> md5) list \<Rightarrow> (filename \<times> md5) list \<Rightarrow> (filename \<times> md5) list" where
  "files_md5_transfer files_md5_git_store files_md5_obs =
     set_minus files_md5_git_store files_md5_obs"

definition import_files_delete ::
  "(filename \<times> md5) list \<Rightarrow> (filename \<times> md5) list \<Rightarrow> (filename \<times> md5) list
     \<Rightarrow> filename list" where
  "import_files_delete files_md5_obs files_md5_git files_md5_git_store =
     set_minus (set_minus (names_of files_md5_obs) (names_of files_md5_git))
       (names_of files_md5_git_store)"

text \<open>
  The uploads of the changelog files: the data of each is computed when the call is
  made, before anything is gathered.
\<close>

fun changes_uploads ::
  "('dt \<Rightarrow> string) \<Rightarrow> 'dt importer \<Rightarrow> fs \<Rightarrow> project \<Rightarrow> package \<Rightarrow> (filename \<times> md5) list
     \<Rightarrow> error + event list" where
  "changes_uploads strftime imp tree project package [] = Inr []"
| "changes_uploads strftime imp tree project package ((filename, md5) # rest) =
     (case fst (prepend_changes strftime imp tree (imp_git_prefix imp @ [package, filename])
                  package) of
        Inl e \<Rightarrow> Inl e
      | Inr data \<Rightarrow>
          (case changes_uploads strftime imp tree project package rest of
             Inl e \<Rightarrow> Inl e
           | Inr uploads \<Rightarrow>
               Inr (Obs_upload project [package, filename] (From_data data)
                      (Some ''repository'') # uploads)))"

fun is_lfs :: "storage \<Rightarrow> bool" where
  "is_lfs (StorageLFS st) = True"
| "is_lfs (StorageOBS st) = False"

fun started :: "error + event list \<Rightarrow> event list" where
  "started (Inl e) = []"
| "started (Inr events) = events"

text \<open>
  \<^verbatim>\<open>Importer.package\<close>. The transfer of the registry-backed store is a coroutine: its
  assertion is raised inside the gather. The transfer of the LFS store is a plain
  function: it is run, and raises, while the arguments of the gather are built. The
  metadata upload and the commit command are named on their own; the metadata files of
  the tree are taken to be readable.
\<close>

text \<open>The set \<^verbatim>\<open>files_md5_git_store\<close>: empty when there is no pointer manifest.\<close>

definition pointer_entries :: "import_world \<Rightarrow> (filename \<times> md5) list" where
  "pointer_entries w = (case iw_pointer w of None \<Rightarrow> [] | Some entries \<Rightarrow> remdups entries)"

definition import_package_meta :: "'dt importer \<Rightarrow> import_world \<Rightarrow> project \<Rightarrow> package \<Rightarrow> event list" where
  "import_package_meta imp w project package =
     (if \<not> (iw_obs_exists w \<and> imp_skip_all_package_meta imp)
      then [Obs_upload project [package, ''_meta''] (From_data (iw_meta w)) None]
      else [])"

definition import_commit ::
  "'dt importer \<Rightarrow> project \<Rightarrow> package \<Rightarrow> (filename \<times> md5) list \<Rightarrow> (filename \<times> md5) list
     \<Rightarrow> event" where
  "import_commit imp project package files_md5_git files_md5_git_store =
     Obs_command project [package] ''commitfilelist''
       (remdups (files_md5_git @ files_md5_git_store))
       (imp_username imp) (''Import '' @ imp_head_hash imp)"

definition import_package ::
  "('dt \<Rightarrow> string) \<Rightarrow> (bytes \<Rightarrow> md5) \<Rightarrow> 'dt importer \<Rightarrow> import_world \<Rightarrow> project \<Rightarrow> package
     \<Rightarrow> (error + unit) \<times> event list" where
  "import_package strftime md5_hex imp w project package =
     (let metadata = import_package_meta imp w project package in
      case gather (iw_fails w) metadata of
        Inl e \<Rightarrow> (Inl e, metadata)
      | Inr _ \<Rightarrow>
      (case importer_git_files_md5 strftime md5_hex imp (iw_tree w) package
              (iw_git_files_md5 w) of
        Inl e \<Rightarrow> (Inl e, metadata)
      | Inr git_files \<Rightarrow>
      (let package_path = imp_git_prefix imp @ [package];
           files_md5_obs = remdups (iw_obs_files_md5 w);
           files_md5_git = remdups git_files;
           files_md5_git_store = pointer_entries w;
           upload = files_md5_upload files_md5_git files_md5_obs;
           transfer = files_md5_transfer files_md5_git_store files_md5_obs;
           delete = import_files_delete files_md5_obs files_md5_git files_md5_git_store;
           uploads =
             map (\<lambda>(filename, md5). Obs_upload project [package, filename]
                                        (From_file (package_path @ [filename]))
                                        (Some ''repository''))
               (filter (\<lambda>(filename, md5). \<not> endswith filename ''.changes'') upload)
       in
       case changes_uploads strftime imp (iw_tree w) project package
              (filter (\<lambda>(filename, md5). endswith filename ''.changes'') upload) of
         Inl e \<Rightarrow> (Inl e, metadata)
       | Inr changes \<Rightarrow>
       (let transfers =
              map (\<lambda>(filename, md5).
                     storage_transfer (iw_storage w) md5 project package filename
                       (iw_obs_url w) [(''rev'', ''repository'')])
                transfer;
            deletes =
              map (\<lambda>filename. Obs_delete project [package, filename] (Some ''repository''))
                delete;
            ops = uploads @ changes @ concat (map started transfers) @ deletes
        in
        if is_lfs (iw_storage w) \<and> list_ex isl transfers then (Inl TypeError, metadata)
        else if list_ex isl transfers then (Inl AssertionError, metadata @ ops)
        else
          (case gather (iw_fails w) ops of
             Inl e \<Rightarrow> (Inl e, metadata @ ops)
           | Inr _ \<Rightarrow>
               if upload \<noteq> [] \<or> transfer \<noteq> [] \<or> delete \<noteq> [] then
                 (let commit = import_commit imp project package files_md5_git
                                 files_md5_git_store
                  in (if iw_fails w commit then Inl OperationFailed else Inr (),
                      metadata @ ops @ [commit]))
               else (Inr (), metadata @ ops))))))"

subsection \<open>Notions of the specification\<close>

text \<open>
  The specification's data model: within one file set a filename has one hash. Its
  property of the export plan speaks of the unchanged filenames: those with the same
  hash on both sides. The changed registry entries whose hash the content store holds
  are the fourth class the code makes.
\<close>

definition unique_filenames :: "(filename \<times> md5) list \<Rightarrow> bool" where
  "unique_filenames files_md5 =
     (\<forall>e \<in> set files_md5. \<forall>e' \<in> set files_md5. fst e = fst e' \<longrightarrow> snd e = snd e')"

definition spec_unchanged ::
  "(filename \<times> md5) list \<Rightarrow> (filename \<times> md5) list \<Rightarrow> filename list" where
  "spec_unchanged files_md5_obs files_md5_git =
     names_of (filter (\<lambda>entry. entry \<in> set files_md5_git) files_md5_obs)"

definition spec_held_by_store ::
  "(filename \<times> md5) list \<Rightarrow> (filename \<times> md5) list \<Rightarrow> md5 set \<Rightarrow> filename list" where
  "spec_held_by_store files_md5_obs files_md5_git index =
     names_of (filter (\<lambda>(filename, md5). md5 \<in> index)
       (set_minus files_md5_obs files_md5_git))"

text \<open>
  Everything an export of a project does before it calls \<^verbatim>\<open>storage.commit()\<close>: the
  project metadata, the exports of the registry's packages, and the deletions of the
  packages that the registry no longer has.
\<close>

definition export_project_body :: "exporter \<Rightarrow> export_world \<Rightarrow> project \<Rightarrow> event list" where
  "export_project_body ex w project =
     export_project_meta ex w project
     @ concat (map (\<lambda>package. snd (export_package ex w project package))
         (remdups (obs_packages w)))
     @ map (\<lambda>package. Git_delete package None)
         (set_minus (remdups (git_packages w)) (remdups (obs_packages w)))"

text \<open>The calls that ask a collaborator to commit, to store, or to write to the registry.\<close>

fun commit_request :: "event \<Rightarrow> bool" where
  "commit_request Storage_commit = True"
| "commit_request (Obs_command project path cmd entries user comment) =
     (cmd = ''commitfilelist'')"
| "commit_request _ = False"

fun store_call :: "event \<Rightarrow> bool" where
  "store_call (Storage_store_files package files_md5) = True"
| "store_call _ = False"

fun registry_write :: "event \<Rightarrow> bool" where
  "registry_write (Obs_upload project path source revision) = True"
| "registry_write (Obs_delete project path revision) = True"
| "registry_write (Obs_command project path cmd entries user comment) = True"
| "registry_write (Obs_transfer p k f p' k' f' to_obs params) = True"
| "registry_write _ = False"

fun upload_of :: "event \<Rightarrow> bool" where
  "upload_of (Obs_upload project path source revision) = True"
| "upload_of _ = False"

text \<open>
  The link policy in the words of the specification: the listing of the package at
  \<^verbatim>\<open>rev=latest\<close>, the target project that the \<^verbatim>\<open>_link\<close> file names, whether the link
  crosses project boundaries, and the listing resolved at a revision.
\<close>

definition link_root :: "'e registry \<Rightarrow> asyncobs \<Rightarrow> project \<Rightarrow> package \<Rightarrow> xml_doc" where
  "link_root registry obs project package =
     asyncobs_xml registry obs (''/source/'' @ project @ ''/'' @ package)
       [(''rev'', Some ''latest'')]"

definition link_target :: "'e registry \<Rightarrow> asyncobs \<Rightarrow> project \<Rightarrow> package \<Rightarrow> string option" where
  "link_target registry obs project package =
     xml_project
       (asyncobs_xml registry obs (''/source/'' @ project @ ''/'' @ package @ ''/_link'')
          [(''rev'', Some ''latest'')])"

definition crosses_project :: "'e registry \<Rightarrow> asyncobs \<Rightarrow> project \<Rightarrow> package \<Rightarrow> bool" where
  "crosses_project registry obs project package =
     (truthy (link_target registry obs project package)
      \<and> link_target registry obs project package \<noteq> Some project)"

definition resolved_at ::
  "'e registry \<Rightarrow> asyncobs \<Rightarrow> project \<Rightarrow> package \<Rightarrow> string option
     \<Rightarrow> (string option \<times> string option) list \<times> string option" where
  "resolved_at registry obs project package revision =
     (xml_entries (asyncobs_xml registry obs (''/source/'' @ project @ ''/'' @ package)
        [(''rev'', revision)]), revision)"

subsection \<open>Worked examples\<close>

text \<open>
  The scenario of the specification: the registry project \<open>P\<close> has the packages \<open>a\<close> and
  \<open>b\<close>, the tree has \<open>a\<close> and \<open>c\<close>. In \<open>failing_world\<close> the download of \<open>a.spec\<close> raises.
\<close>

definition example_exporter :: exporter where
  "example_exporter = \<lparr>git_path = [''repo''], git_prefix = [''repo'', ''packages''],
     skip_project_meta = False, skip_all_project_meta = True, skip_all_package_meta = True\<rparr>"

definition example_world :: export_world where
  "example_world = \<lparr>obs_packages = [''a'', ''b''],
     obs_files_md5_revision = (\<lambda>package.
       if package = ''a'' then ([(''a.spec'', ''m1''), (''a.tar.gz'', ''m2'')], Some ''3'')
       else if package = ''b'' then ([(''b.spec'', ''m3'')], Some ''1'')
       else ([], Some ''latest'')),
     git_packages = [''a'', ''c''],
     git_files_md5 = (\<lambda>package.
       if package = ''a'' then [(''a.spec'', ''m0''), (''old.patch'', ''m9'')] else []),
     project_obs_dir_exists = True,
     package_obs_dir_exists = (\<lambda>package. True),
     storage_index = (\<lambda>package. {}),
     binary = (\<lambda>filename_path. path_suffix filename_path \<in> BINARY),
     export_fails = (\<lambda>call. False)\<rparr>"

definition failing_world :: export_world where
  "failing_world = example_world\<lparr>export_fails :=
     (\<lambda>call. call = Obs_download ''P'' [''a'', ''a.spec'']
                       [''repo'', ''packages'', ''a'', ''a.spec''] (Some ''3''))\<rparr>"

text \<open>
  A tree with two files of unknown suffix whose bytes are not UTF-8, of 1 KB and of
  6 KB, a compressed archive and a spec file.
\<close>

definition classifier_tree :: fs where
  "classifier_tree =
     Map.empty([''repo'', ''pkg'', ''small''] \<mapsto> replicate 1024 (CHR 0xFF),
               [''repo'', ''pkg'', ''large''] \<mapsto> replicate 6144 (CHR 0xFF),
               [''repo'', ''pkg'', ''a.tar.gz''] \<mapsto> replicate 6144 (CHR 0xFF),
               [''repo'', ''pkg'', ''a.spec''] \<mapsto> replicate 6144 (CHR 0xFF))"

text \<open>
  A registry-backed store that holds the hash \<open>h1\<close>, and a tree in which the package
  \<open>pkg\<close> has the plain file \<open>old.bin\<close>.
\<close>

definition example_store :: storage_obs where
  "example_store = \<lparr>so_project = ''home:u:storage'', so_package = ''files'',
     so_index = {''h1''}, so_sync = True\<rparr>"

definition example_tree :: fs where
  "example_tree = Map.empty([''repo'', ''pkg'', ''old.bin''] \<mapsto> ''stale'')"

text \<open>
  A registry in which the package \<open>P/pkg\<close> is a link into the project \<open>Q\<close>, with the
  expanded sources at revision \<open>x9\<close>, and the package \<open>P/own\<close> is a link inside the
  project \<open>P\<close>; a registry that cannot be reached; and a registry whose listings are
  empty.
\<close>

definition example_registry :: "unit registry" where
  "example_registry url params =
     (if url = ''https://api/'' @ ''/source/P/pkg'' \<and> params = [(''rev'', Some ''latest'')] then
        Inr \<lparr>xml_rev = Some ''7'', xml_project = None,
             xml_entries = [(Some ''_link'', Some ''m0''), (Some ''local.patch'', Some ''m1'')],
             xml_linkinfo = [Some ''x9'']\<rparr>
      else if url = ''https://api/'' @ ''/source/P/pkg/_link'' then
        Inr \<lparr>xml_rev = None, xml_project = Some ''Q'', xml_entries = [], xml_linkinfo = []\<rparr>
      else if url = ''https://api/'' @ ''/source/P/pkg'' \<and> params = [(''rev'', Some ''x9'')] then
        Inr \<lparr>xml_rev = Some ''x9'', xml_project = None,
             xml_entries = [(Some ''pkg.spec'', Some ''m2''), (Some ''local.patch'', Some ''m1'')],
             xml_linkinfo = []\<rparr>
      else if url = ''https://api/'' @ ''/source/P/own'' \<and> params = [(''rev'', Some ''latest'')] then
        Inr \<lparr>xml_rev = Some ''4'', xml_project = None,
             xml_entries = [(Some ''_link'', Some ''n0''), (Some ''own.patch'', Some ''n1'')],
             xml_linkinfo = [Some ''y1'']\<rparr>
      else if url = ''https://api/'' @ ''/source/P/own/_link'' then
        Inr \<lparr>xml_rev = None, xml_project = None, xml_entries = [], xml_linkinfo = []\<rparr>
      else Inl ())"

definition unreachable_registry :: "unit registry" where
  "unreachable_registry url params = Inl ()"

definition empty_registry :: "unit registry" where
  "empty_registry url params =
     Inr \<lparr>xml_rev = Some ''latest'', xml_project = None, xml_entries = [], xml_linkinfo = []\<rparr>"

definition example_obs :: "string \<Rightarrow> asyncobs" where
  "example_obs link = \<lparr>obs_url = ''https://api'', obs_username = ''jane'', obs_link = link\<rparr>"

text \<open>
  An import of the package \<open>pkg\<close>: the tree has a changed spec file and a changelog, the
  pointer manifest names one stored file, the registry has an old spec file and a patch
  that the tree no longer has. \<open>second_import\<close> is the same tree against the registry as
  the commit of the first import leaves it. \<open>skipping_importer\<close> is the importer run
  with \<^verbatim>\<open>--skip-all-package-meta\<close>.
\<close>

definition example_strftime :: "nat \<Rightarrow> string" where
  "example_strftime commit_date = ''Thu Jan 01 00:00:00 UTC 1970''"

definition example_md5 :: "bytes \<Rightarrow> md5" where
  "example_md5 data = ''md5:'' @ take 4 (rev data)"

definition example_importer :: "nat importer" where
  "example_importer = \<lparr>imp_git_path = [''repo''], imp_git_prefix = [''repo'', ''packages''],
     imp_first_entry =
       Map.empty([''packages'', ''pkg'']
         \<mapsto> (''abc123'', ''Jane Doe'', ''jane@example.org'', 0)),
     imp_head_hash = ''abc123'', imp_username = ''jane'', imp_skip_all_package_meta = False\<rparr>"

definition skipping_importer :: "nat importer" where
  "skipping_importer = example_importer\<lparr>imp_skip_all_package_meta := True\<rparr>"

definition first_import :: import_world where
  "first_import = \<lparr>iw_obs_exists = True,
     iw_obs_files_md5 = [(''pkg.spec'', ''m1''), (''gone.patch'', ''m7'')],
     iw_git_files_md5 = [(''pkg.spec'', ''m2''), (''pkg.changes'', ''m3'')],
     iw_tree = Map.empty([''repo'', ''packages'', ''pkg'', ''pkg.changes''] \<mapsto> ''old entries''),
     iw_pointer = Some [(''big.tar.gz'', ''m5'')],
     iw_meta = ''<package/>'',
     iw_storage = StorageOBS \<lparr>so_project = ''home:jane:storage'', so_package = ''files'',
                    so_index = {''m5''}, so_sync = True\<rparr>,
     iw_obs_url = ''https://api'',
     iw_fails = (\<lambda>call. False)\<rparr>"

definition second_import :: import_world where
  "second_import = first_import\<lparr>iw_obs_files_md5 :=
     [(''pkg.spec'', ''m2''), (''pkg.changes'', ''md5:seir''), (''big.tar.gz'', ''m5'')]\<rparr>"

section \<open>Properties\<close>

subsection \<open>The export plan\<close>

lemma set_files_download:
  "set (files_download R T I) = {f. \<exists>h. (f, h) \<in> set R \<and> (f, h) \<notin> set T \<and> h \<notin> I}"
  by (auto simp: files_download_def set_minus_def image_iff)

lemma set_files_delete:
  "set (files_delete R T) = {f. f \<in> fst ` set T \<and> f \<notin> fst ` set R}"
  by (auto simp: files_delete_def set_minus_def names_of_def)

lemma set_spec_unchanged:
  "set (spec_unchanged R T) = {f. \<exists>h. (f, h) \<in> set R \<and> (f, h) \<in> set T}"
  by (auto simp: spec_unchanged_def names_of_def image_iff)

lemma set_spec_held_by_store:
  "set (spec_held_by_store R T I) = {f. \<exists>h. (f, h) \<in> set R \<and> (f, h) \<notin> set T \<and> h \<in> I}"
  by (auto simp: spec_held_by_store_def set_minus_def names_of_def image_iff)

text \<open>
  Claim C1, as stated, fails: a registry file that the tree lacks and whose hash is in
  the index of the content store is neither downloaded, nor deleted, nor unchanged. With
  registry file set \<open>{(a, h1)}\<close>, an empty tree and index \<open>{h1}\<close> the three sets are empty
  and do not cover the filename \<open>a\<close>.
\<close>

theorem export_partition_counterexample:
  "set (files_download [(''a'', ''h1'')] [] {''h1''}) \<union> set (files_delete [(''a'', ''h1'')] [])
     \<union> set (spec_unchanged [(''a'', ''h1'')] [])
   \<noteq> fst ` set [(''a'', ''h1'')] \<union> fst ` set ([] :: (filename \<times> md5) list)"
  by (simp add: files_download_def files_delete_def spec_unchanged_def set_minus_def
      names_of_def)

text \<open>
  Claim C1, amended. For a registry file set \<open>R\<close> with unique filenames, a tree file
  set \<open>T\<close> and an index \<open>I\<close>: the filenames to download are those of the entries of \<open>R\<close>
  that are not entries of \<open>T\<close> and whose hash is not in \<open>I\<close>; the filenames to delete are
  those of \<open>T\<close> that \<open>R\<close> does not have; and the filenames to download, to delete, the
  unchanged ones and those of the changed registry entries whose hash is in \<open>I\<close> are
  pairwise disjoint and together are the filenames of \<open>R\<close> and \<open>T\<close>.
\<close>

theorem export_plan_partition:
  assumes "unique_filenames R"
  shows "set (files_download R T I) = {f. \<exists>h. (f, h) \<in> set R \<and> (f, h) \<notin> set T \<and> h \<notin> I}
    \<and> set (files_delete R T) = {f. f \<in> fst ` set T \<and> f \<notin> fst ` set R}
    \<and> set (files_download R T I) \<inter> set (files_delete R T) = {}
    \<and> set (files_download R T I) \<inter> set (spec_unchanged R T) = {}
    \<and> set (files_download R T I) \<inter> set (spec_held_by_store R T I) = {}
    \<and> set (files_delete R T) \<inter> set (spec_unchanged R T) = {}
    \<and> set (files_delete R T) \<inter> set (spec_held_by_store R T I) = {}
    \<and> set (spec_unchanged R T) \<inter> set (spec_held_by_store R T I) = {}
    \<and> set (files_download R T I) \<union> set (files_delete R T) \<union> set (spec_unchanged R T)
          \<union> set (spec_held_by_store R T I) = fst ` set R \<union> fst ` set T"
proof -
  have u: "\<And>f h h'. (f, h) \<in> set R \<Longrightarrow> (f, h') \<in> set R \<Longrightarrow> h = h'"
    using assms unfolding unique_filenames_def by fastforce
  have "set (files_download R T I) \<inter> set (files_delete R T) = {}"
    unfolding set_files_download set_files_delete by force
  moreover have "set (files_download R T I) \<inter> set (spec_unchanged R T) = {}"
    unfolding set_files_download set_spec_unchanged using u by blast
  moreover have "set (files_download R T I) \<inter> set (spec_held_by_store R T I) = {}"
    unfolding set_files_download set_spec_held_by_store using u by blast
  moreover have "set (files_delete R T) \<inter> set (spec_unchanged R T) = {}"
    unfolding set_files_delete set_spec_unchanged by force
  moreover have "set (files_delete R T) \<inter> set (spec_held_by_store R T I) = {}"
    unfolding set_files_delete set_spec_held_by_store by force
  moreover have "set (spec_unchanged R T) \<inter> set (spec_held_by_store R T I) = {}"
    unfolding set_spec_unchanged set_spec_held_by_store using u by blast
  moreover have "set (files_download R T I) \<union> set (files_delete R T)
      \<union> set (spec_unchanged R T) \<union> set (spec_held_by_store R T I)
      = fst ` set R \<union> fst ` set T"
    unfolding set_files_download set_files_delete set_spec_unchanged set_spec_held_by_store
    by force
  ultimately show ?thesis
    using set_files_download [of R T I] set_files_delete [of R T] by blast
qed

theorem export_plan_partition_witness:
  "unique_filenames [(''a'', ''h1''), (''b'', ''h2''), (''c'', ''h3'')]
   \<and> set (files_download [(''a'', ''h1''), (''b'', ''h2''), (''c'', ''h3'')]
            [(''c'', ''h3''), (''d'', ''h4'')] {''h2''}) = {''a''}
   \<and> set (files_delete [(''a'', ''h1''), (''b'', ''h2''), (''c'', ''h3'')]
            [(''c'', ''h3''), (''d'', ''h4'')]) = {''d''}
   \<and> set (spec_unchanged [(''a'', ''h1''), (''b'', ''h2''), (''c'', ''h3'')]
            [(''c'', ''h3''), (''d'', ''h4'')]) = {''c''}
   \<and> set (spec_held_by_store [(''a'', ''h1''), (''b'', ''h2''), (''c'', ''h3'')]
            [(''c'', ''h3''), (''d'', ''h4'')] {''h2''}) = {''b''}
   \<and> set (files_download [(''a'', ''h1''), (''b'', ''h2''), (''c'', ''h3'')]
            [(''c'', ''h3''), (''d'', ''h4'')] {''h2''})
       \<union> set (files_delete [(''a'', ''h1''), (''b'', ''h2''), (''c'', ''h3'')]
            [(''c'', ''h3''), (''d'', ''h4'')])
       \<union> set (spec_unchanged [(''a'', ''h1''), (''b'', ''h2''), (''c'', ''h3'')]
            [(''c'', ''h3''), (''d'', ''h4'')])
       \<union> set (spec_held_by_store [(''a'', ''h1''), (''b'', ''h2''), (''c'', ''h3'')]
            [(''c'', ''h3''), (''d'', ''h4'')] {''h2''})
       = fst ` set [(''a'', ''h1''), (''b'', ''h2''), (''c'', ''h3'')]
         \<union> fst ` set [(''c'', ''h3''), (''d'', ''h4'')]"
proof -
  have u: "unique_filenames [(''a'', ''h1''), (''b'', ''h2''), (''c'', ''h3'')]"
    by (simp add: unique_filenames_def)
  have download:
    "set (files_download [(''a'', ''h1''), (''b'', ''h2''), (''c'', ''h3'')]
            [(''c'', ''h3''), (''d'', ''h4'')] {''h2''}) = {''a''}"
    by (simp add: files_download_def set_minus_def)
  have delete:
    "set (files_delete [(''a'', ''h1''), (''b'', ''h2''), (''c'', ''h3'')]
            [(''c'', ''h3''), (''d'', ''h4'')]) = {''d''}"
    by (simp add: files_delete_def set_minus_def names_of_def)
  have unchanged:
    "set (spec_unchanged [(''a'', ''h1''), (''b'', ''h2''), (''c'', ''h3'')]
            [(''c'', ''h3''), (''d'', ''h4'')]) = {''c''}"
    by (simp add: spec_unchanged_def names_of_def)
  have held:
    "set (spec_held_by_store [(''a'', ''h1''), (''b'', ''h2''), (''c'', ''h3'')]
            [(''c'', ''h3''), (''d'', ''h4'')] {''h2''}) = {''b''}"
    by (simp add: spec_held_by_store_def set_minus_def names_of_def)
  from export_plan_partition [OF u, of "[(''c'', ''h3''), (''d'', ''h4'')]" "{''h2''}"]
  have "set (files_download [(''a'', ''h1''), (''b'', ''h2''), (''c'', ''h3'')]
            [(''c'', ''h3''), (''d'', ''h4'')] {''h2''})
       \<union> set (files_delete [(''a'', ''h1''), (''b'', ''h2''), (''c'', ''h3'')]
            [(''c'', ''h3''), (''d'', ''h4'')])
       \<union> set (spec_unchanged [(''a'', ''h1''), (''b'', ''h2''), (''c'', ''h3'')]
            [(''c'', ''h3''), (''d'', ''h4'')])
       \<union> set (spec_held_by_store [(''a'', ''h1''), (''b'', ''h2''), (''c'', ''h3'')]
            [(''c'', ''h3''), (''d'', ''h4'')] {''h2''})
       = fst ` set [(''a'', ''h1''), (''b'', ''h2''), (''c'', ''h3'')]
         \<union> fst ` set [(''c'', ''h3''), (''d'', ''h4'')]"
    by blast
  with u download delete unchanged held show ?thesis
    by blast
qed

subsection \<open>The binary classifier\<close>

lemma path_suffix_examples:
  "path_suffix [''repo'', ''pkg'', ''small''] = []"
  "path_suffix [''repo'', ''pkg'', ''large''] = []"
  "path_suffix [''repo'', ''pkg'', ''a.tar.gz''] = ''.gz''"
  "path_suffix [''repo'', ''pkg'', ''a.spec''] = ''.spec''"
  by (simp_all add: path_suffix_def path_name_def name_suffix_def)

text \<open>
  Claim C5. For a file that exists, \<^verbatim>\<open>is_binary\<close> answers: binary when the suffix is a
  known binary extension or the non-binary exception; otherwise text when the suffix is
  a known text extension; otherwise text when the file is smaller than 5 * 1024 bytes,
  and then it has only looked at the size (no chunk is read, decoded or analysed);
  otherwise text when the first 4 * 1024 bytes decode as UTF-8; otherwise binary exactly
  when the confidence of the encoding detection on those bytes is below 0.8.
\<close>

theorem is_binary_decision_order:
  assumes "tree filename = Some content"
  shows
   "(path_suffix filename \<in> BINARY \<union> NON_BINARY_EXCEPTIONS \<longrightarrow>
       fst (is_binary utf8_decodes chardet_confidence tree filename) = Inr True)
    \<and> (path_suffix filename \<notin> BINARY \<union> NON_BINARY_EXCEPTIONS
         \<and> path_suffix filename \<in> NON_BINARY \<longrightarrow>
       fst (is_binary utf8_decodes chardet_confidence tree filename) = Inr False)
    \<and> (path_suffix filename \<notin> BINARY \<union> NON_BINARY_EXCEPTIONS \<union> NON_BINARY
         \<and> length content < 5 * 1024 \<longrightarrow>
       is_binary utf8_decodes chardet_confidence tree filename = (Inr False, [Stat]))
    \<and> (path_suffix filename \<notin> BINARY \<union> NON_BINARY_EXCEPTIONS \<union> NON_BINARY
         \<and> \<not> length content < 5 * 1024 \<and> utf8_decodes (take (4 * 1024) content) \<longrightarrow>
       fst (is_binary utf8_decodes chardet_confidence tree filename) = Inr False)
    \<and> (path_suffix filename \<notin> BINARY \<union> NON_BINARY_EXCEPTIONS \<union> NON_BINARY
         \<and> \<not> length content < 5 * 1024 \<and> \<not> utf8_decodes (take (4 * 1024) content) \<longrightarrow>
       fst (is_binary utf8_decodes chardet_confidence tree filename)
         = Inr (chardet_confidence (take (4 * 1024) content) < 0.8))"
  using assms by (simp add: is_binary_def Let_def)

text \<open>
  The boundary cases of the specification: a file of 1 KB with an unknown suffix and
  bytes that do not decode is text, after a look at its size only; a file of 6 KB with an
  unknown suffix and bytes that do not decode is binary at confidence 0.5 and text at
  confidence 0.8. An archive is binary and a spec file is text whatever their bytes, and
  a file of 6 KB with an unknown suffix whose first bytes decode is text.
\<close>

theorem is_binary_decision_order_witness:
  "is_binary (\<lambda>chunk. False) (\<lambda>chunk. 0.5) classifier_tree [''repo'', ''pkg'', ''small'']
     = (Inr False, [Stat])
   \<and> fst (is_binary (\<lambda>chunk. False) (\<lambda>chunk. 0.5) classifier_tree [''repo'', ''pkg'', ''large''])
     = Inr True
   \<and> fst (is_binary (\<lambda>chunk. False) (\<lambda>chunk. 0.8) classifier_tree [''repo'', ''pkg'', ''large''])
     = Inr False
   \<and> fst (is_binary (\<lambda>chunk. True) (\<lambda>chunk. 0.5) classifier_tree [''repo'', ''pkg'', ''large''])
     = Inr False
   \<and> fst (is_binary (\<lambda>chunk. False) (\<lambda>chunk. 0.9) classifier_tree
            [''repo'', ''pkg'', ''a.tar.gz'']) = Inr True
   \<and> fst (is_binary (\<lambda>chunk. False) (\<lambda>chunk. 0.5) classifier_tree
            [''repo'', ''pkg'', ''a.spec'']) = Inr False"
proof -
  have small: "classifier_tree [''repo'', ''pkg'', ''small''] = Some (replicate 1024 (CHR 0xFF))"
    by (simp add: classifier_tree_def)
  have large: "classifier_tree [''repo'', ''pkg'', ''large''] = Some (replicate 6144 (CHR 0xFF))"
    by (simp add: classifier_tree_def)
  have archive:
    "classifier_tree [''repo'', ''pkg'', ''a.tar.gz''] = Some (replicate 6144 (CHR 0xFF))"
    by (simp add: classifier_tree_def)
  have spec: "classifier_tree [''repo'', ''pkg'', ''a.spec''] = Some (replicate 6144 (CHR 0xFF))"
    by (simp add: classifier_tree_def)
  show ?thesis
    using
      is_binary_decision_order [where tree = classifier_tree
        and filename = "[''repo'', ''pkg'', ''small'']" and utf8_decodes = "\<lambda>chunk. False"
        and chardet_confidence = "\<lambda>chunk. 0.5", OF small]
      is_binary_decision_order [where tree = classifier_tree
        and filename = "[''repo'', ''pkg'', ''large'']" and utf8_decodes = "\<lambda>chunk. False"
        and chardet_confidence = "\<lambda>chunk. 0.5", OF large]
      is_binary_decision_order [where tree = classifier_tree
        and filename = "[''repo'', ''pkg'', ''large'']" and utf8_decodes = "\<lambda>chunk. False"
        and chardet_confidence = "\<lambda>chunk. 0.8", OF large]
      is_binary_decision_order [where tree = classifier_tree
        and filename = "[''repo'', ''pkg'', ''large'']" and utf8_decodes = "\<lambda>chunk. True"
        and chardet_confidence = "\<lambda>chunk. 0.5", OF large]
      is_binary_decision_order [where tree = classifier_tree
        and filename = "[''repo'', ''pkg'', ''a.tar.gz'']" and utf8_decodes = "\<lambda>chunk. False"
        and chardet_confidence = "\<lambda>chunk. 0.9", OF archive]
      is_binary_decision_order [where tree = classifier_tree
        and filename = "[''repo'', ''pkg'', ''a.spec'']" and utf8_decodes = "\<lambda>chunk. False"
        and chardet_confidence = "\<lambda>chunk. 0.5", OF spec]
    by (simp add: path_suffix_examples BINARY_def NON_BINARY_EXCEPTIONS_def NON_BINARY_def)
qed

subsection \<open>Changelog stamping\<close>

text \<open>
  Claim C6. For a package with the revision record (commit id, author name, author
  email, commit date) and a changelog file with the bytes \<open>raw\<close>, the content that is
  uploaded is: a line of 67 dashes; the line with the formatted date, the author name
  and the author email in angle brackets; an empty line; the line
  \<^verbatim>\<open>- Last git synchronization: <commit id>\<close>; an empty line; and then \<open>raw\<close>, unmodified.
  The tree is as it was before.
\<close>

theorem changelog_stamping:
  assumes "imp_first_entry imp (relative_to (imp_git_prefix imp @ [package]) (imp_git_path imp))
             = Some (commit_hash, author, email, commit_date)"
    and "tree filename_path = Some raw"
  shows "prepend_changes strftime imp tree filename_path package =
           (Inr (replicate 67 CHR ''-'' @ newline
                 @ strftime commit_date @ '' - '' @ author @ '' <'' @ email @ ''>'' @ newline
                 @ newline
                 @ ''- Last git synchronization: '' @ commit_hash @ newline
                 @ newline
                 @ raw),
            tree)"
  using assms
  by (simp add: prepend_changes_def changes_git_entry_def last_revision_to_def)

theorem changelog_stamping_witness:
  "prepend_changes example_strftime example_importer (iw_tree first_import)
      [''repo'', ''packages'', ''pkg'', ''pkg.changes''] ''pkg''
   = (Inr (''-------------------------------------------------------------------'' @ newline
           @ ''Thu Jan 01 00:00:00 UTC 1970 - Jane Doe <jane@example.org>'' @ newline @ newline
           @ ''- Last git synchronization: abc123'' @ newline @ newline @ ''old entries''),
      iw_tree first_import)"
proof -
  have revision: "imp_first_entry example_importer
      (relative_to (imp_git_prefix example_importer @ [''pkg'']) (imp_git_path example_importer))
      = Some (''abc123'', ''Jane Doe'', ''jane@example.org'', 0)"
    by (simp add: example_importer_def relative_to_def)
  have content: "iw_tree first_import [''repo'', ''packages'', ''pkg'', ''pkg.changes'']
      = Some ''old entries''"
    by (simp add: first_import_def)
  show ?thesis
    using changelog_stamping [where imp = example_importer and package = "''pkg''"
        and tree = "iw_tree first_import"
        and filename_path = "[''repo'', ''packages'', ''pkg'', ''pkg.changes'']"
        and strftime = example_strftime, OF revision content]
    by (simp add: example_strftime_def numeral_eq_Suc)
qed

subsection \<open>Transfers of the content stores\<close>

text \<open>
  Claim C9, as stated, fails for the LFS store: its index is empty, and its transfer
  returns without a copy and without an assertion failure.
\<close>

theorem transfer_fails_fast_counterexample:
  "\<not> (\<forall>st hash project package filename obs params.
        hash \<notin> index_of st \<longrightarrow>
        storage_transfer st hash project package filename obs params = Inl AssertionError)"
proof
  assume claim: "\<forall>st hash project package filename obs params.
        hash \<notin> index_of st \<longrightarrow>
        storage_transfer st hash project package filename obs params = Inl AssertionError"
  have "''h'' \<notin> index_of (StorageLFS (storagelfs_init []))"
    by (simp add: storagelfs_init_def)
  with claim have
    "storage_transfer (StorageLFS (storagelfs_init [])) ''h'' ''P'' ''pkg'' ''f'' ''url'' []
      = Inl AssertionError"
    by blast
  then show False
    by (simp add: storagelfs_transfer_def)
qed

text \<open>
  Claim C9, amended. The transfer of the registry-backed store fails with an assertion
  failure, and copies nothing, when the hash is not in its index; when the hash is in
  the index it copies the stored object of that name to the destination. The index of
  the LFS store is empty; its transfer, called with the parameters it declares, copies
  nothing and does not fail.
\<close>

theorem transfer_by_variant:
  "(hash \<notin> so_index st \<longrightarrow>
      storage_transfer (StorageOBS st) hash project package filename obs params
        = Inl AssertionError)
   \<and> (hash \<in> so_index st \<longrightarrow>
      storage_transfer (StorageOBS st) hash project package filename obs params
        = Inr [Obs_transfer (so_project st) (so_package st) hash project package filename
                 obs params])
   \<and> index_of (StorageLFS (storagelfs_init tracked)) = {}
   \<and> storage_transfer (StorageLFS lfs) hash project package filename obs [] = Inr []"
  by (simp add: storageobs_transfer_def storagelfs_transfer_def storagelfs_init_def)

theorem transfer_by_variant_witness:
  "storage_transfer (StorageOBS example_store) ''h2'' ''P'' ''pkg'' ''f'' ''https://api''
      [(''rev'', ''repository'')] = Inl AssertionError
   \<and> storage_transfer (StorageOBS example_store) ''h1'' ''P'' ''pkg'' ''f'' ''https://api''
      [(''rev'', ''repository'')]
      = Inr [Obs_transfer ''home:u:storage'' ''files'' ''h1'' ''P'' ''pkg'' ''f'' ''https://api''
               [(''rev'', ''repository'')]]
   \<and> index_of (StorageLFS (storagelfs_init [])) = {}
   \<and> storage_transfer (StorageLFS (storagelfs_init [])) ''h1'' ''P'' ''pkg'' ''f''
        ''https://api'' [] = Inr []"
  using
    transfer_by_variant [where hash = "''h2''" and st = example_store and project = "''P''"
      and package = "''pkg''" and filename = "''f''" and obs = "''https://api''"
      and params = "[(''rev'', ''repository'')]" and lfs = "storagelfs_init []"
      and tracked = "[]"]
    transfer_by_variant [where hash = "''h1''" and st = example_store and project = "''P''"
      and package = "''pkg''" and filename = "''f''" and obs = "''https://api''"
      and params = "[(''rev'', ''repository'')]" and lfs = "storagelfs_init []"
      and tracked = "[]"]
  by (simp add: example_store_def)

subsection \<open>Registry listings\<close>

text \<open>
  Claim C10. When the fetch or the parse of a listing raises, \<^verbatim>\<open>_xml\<close> returns the empty
  directory document: the list of packages of the project is then empty, and the listing
  of the files of a package is the empty list with the revision \<^verbatim>\<open>latest\<close>, which is
  also the answer for a package whose listing is an empty directory of revision
  \<^verbatim>\<open>latest\<close>.
\<close>

theorem listing_failure_gives_empty_directory:
  "(registry (obs_url obs @ ''/'' @ url_path) params = Inl e \<longrightarrow>
      asyncobs_xml registry obs url_path params = empty_directory)
   \<and> (registry (obs_url obs @ ''/'' @ ''source/'' @ project) [] = Inl e \<longrightarrow>
      asyncobs_packages registry obs project = [])
   \<and> (registry (obs_url obs @ ''/'' @ ''/source/'' @ project @ ''/'' @ package)
         [(''rev'', Some ''latest'')] = Inl e \<longrightarrow>
      files_md5_revision registry obs project package = (Inr ([], Some ''latest''), []))
   \<and> (registry (obs_url obs @ ''/'' @ ''/source/'' @ project @ ''/'' @ package)
         [(''rev'', Some ''latest'')] = Inl e
       \<and> registry' (obs_url obs @ ''/'' @ ''/source/'' @ project @ ''/'' @ package)
           [(''rev'', Some ''latest'')]
         = Inr \<lparr>xml_rev = Some ''latest'', xml_project = None, xml_entries = [],
                xml_linkinfo = []\<rparr> \<longrightarrow>
      files_md5_revision registry obs project package
        = files_md5_revision registry' obs project package)"
  by (simp add: asyncobs_xml_def asyncobs_packages_def files_md5_revision_def
      empty_directory_def Let_def)

theorem listing_failure_gives_empty_directory_witness:
  "asyncobs_xml unreachable_registry (example_obs ''auto'') ''source/P'' [] = empty_directory
   \<and> asyncobs_packages unreachable_registry (example_obs ''auto'') ''P'' = []
   \<and> files_md5_revision unreachable_registry (example_obs ''auto'') ''P'' ''pkg''
       = (Inr ([], Some ''latest''), [])
   \<and> files_md5_revision unreachable_registry (example_obs ''auto'') ''P'' ''pkg''
       = files_md5_revision empty_registry (example_obs ''auto'') ''P'' ''pkg''"
  using
    listing_failure_gives_empty_directory [where registry = unreachable_registry
      and registry' = empty_registry and obs = "example_obs ''auto''" and url_path = "''source/P''"
      and params = "[]" and project = "''P''" and package = "''pkg''" and e = "()"]
  unfolding unreachable_registry_def empty_registry_def
  by blast

subsection \<open>The link policy\<close>

text \<open>
  Claim C4. For a package whose listing has a \<^verbatim>\<open>_link\<close> entry: when the link's target
  project differs from the package's project, the policy \<^verbatim>\<open>never\<close> returns the empty
  file list with no revision and prints an error; the policy \<^verbatim>\<open>always\<close> returns the
  listing at the link's target revision (the \<^verbatim>\<open>xsrcmd5\<close> of the listing's \<^verbatim>\<open>linkinfo\<close>
  element), whatever the target project; the policy \<^verbatim>\<open>auto\<close> returns the listing at the
  link's target revision when the link crosses project boundaries, and the listing and
  revision of the package itself when it does not, as does the policy \<^verbatim>\<open>never\<close> then.
\<close>

theorem link_policy:
  assumes "list_ex (\<lambda>entry. fst entry = Some ''_link'')
             (xml_entries (link_root registry obs project package))"
  shows
    "(crosses_project registry obs project package \<and> obs_link obs = ''never'' \<longrightarrow>
        files_md5_revision registry obs project package
          = (Inr ([], None),
             [link_error_message project package (link_target registry obs project package)]))
     \<and> (obs_link obs = ''always''
         \<and> xml_linkinfo (link_root registry obs project package) = target_revision # others \<longrightarrow>
        files_md5_revision registry obs project package
          = (Inr (resolved_at registry obs project package target_revision), []))
     \<and> (crosses_project registry obs project package \<and> obs_link obs = ''auto''
         \<and> xml_linkinfo (link_root registry obs project package) = target_revision # others \<longrightarrow>
        files_md5_revision registry obs project package
          = (Inr (resolved_at registry obs project package target_revision), []))
     \<and> (\<not> crosses_project registry obs project package
         \<and> (obs_link obs = ''auto'' \<or> obs_link obs = ''never'') \<longrightarrow>
        files_md5_revision registry obs project package
          = (Inr (xml_entries (link_root registry obs project package),
                  xml_rev (link_root registry obs project package)), []))"
  using assms
  by (auto simp add: files_md5_revision_def Let_def link_root_def link_target_def
      crosses_project_def resolved_at_def)

lemma example_link_root:
  "link_root example_registry (example_obs link) ''P'' ''pkg''
     = \<lparr>xml_rev = Some ''7'', xml_project = None,
        xml_entries = [(Some ''_link'', Some ''m0''), (Some ''local.patch'', Some ''m1'')],
        xml_linkinfo = [Some ''x9'']\<rparr>"
  by (simp add: link_root_def asyncobs_xml_def example_registry_def example_obs_def)

lemma example_crosses_project:
  "crosses_project example_registry (example_obs link) ''P'' ''pkg''"
  by (simp add: crosses_project_def link_target_def asyncobs_xml_def example_registry_def
      example_obs_def truthy_def)

lemma example_resolved_at:
  "resolved_at example_registry (example_obs link) ''P'' ''pkg'' (Some ''x9'')
     = ([(Some ''pkg.spec'', Some ''m2''), (Some ''local.patch'', Some ''m1'')], Some ''x9'')"
  by (simp add: resolved_at_def asyncobs_xml_def example_registry_def example_obs_def)

theorem link_policy_witness:
  "files_md5_revision example_registry (example_obs ''never'') ''P'' ''pkg''
     = (Inr ([], None), [''ERROR: Link P/pkg pointing outside (Q)''])
   \<and> files_md5_revision example_registry (example_obs ''always'') ''P'' ''pkg''
     = (Inr ([(Some ''pkg.spec'', Some ''m2''), (Some ''local.patch'', Some ''m1'')],
             Some ''x9''), [])
   \<and> files_md5_revision example_registry (example_obs ''auto'') ''P'' ''pkg''
     = (Inr ([(Some ''pkg.spec'', Some ''m2''), (Some ''local.patch'', Some ''m1'')],
             Some ''x9''), [])
   \<and> files_md5_revision example_registry (example_obs ''auto'') ''P'' ''own''
     = (Inr ([(Some ''_link'', Some ''n0''), (Some ''own.patch'', Some ''n1'')], Some ''4''), [])"
proof -
  have link: "list_ex (\<lambda>entry. fst entry = Some ''_link'')
      (xml_entries (link_root example_registry (example_obs link) ''P'' ''pkg''))" for link
    by (simp add: example_link_root)
  have info: "xml_linkinfo (link_root example_registry (example_obs link) ''P'' ''pkg'')
      = Some ''x9'' # []" for link
    by (simp add: example_link_root)
  have target: "link_target example_registry (example_obs ''never'') ''P'' ''pkg'' = Some ''Q''"
    by (simp add: link_target_def asyncobs_xml_def example_registry_def example_obs_def)
  have policy: "obs_link (example_obs link) = link" for link
    by (simp add: example_obs_def)
  have own_root: "link_root example_registry (example_obs ''auto'') ''P'' ''own''
     = \<lparr>xml_rev = Some ''4'', xml_project = None,
        xml_entries = [(Some ''_link'', Some ''n0''), (Some ''own.patch'', Some ''n1'')],
        xml_linkinfo = [Some ''y1'']\<rparr>"
    by (simp add: link_root_def asyncobs_xml_def example_registry_def example_obs_def)
  have own_link: "list_ex (\<lambda>entry. fst entry = Some ''_link'')
      (xml_entries (link_root example_registry (example_obs ''auto'') ''P'' ''own''))"
    by (simp add: own_root)
  have own_inside: "\<not> crosses_project example_registry (example_obs ''auto'') ''P'' ''own''"
    by (simp add: crosses_project_def link_target_def asyncobs_xml_def example_registry_def
        example_obs_def truthy_def)
  have cross:
    "files_md5_revision example_registry (example_obs ''never'') ''P'' ''pkg''
       = (Inr ([], None), [''ERROR: Link P/pkg pointing outside (Q)''])
     \<and> files_md5_revision example_registry (example_obs ''always'') ''P'' ''pkg''
       = (Inr ([(Some ''pkg.spec'', Some ''m2''), (Some ''local.patch'', Some ''m1'')],
               Some ''x9''), [])
     \<and> files_md5_revision example_registry (example_obs ''auto'') ''P'' ''pkg''
       = (Inr ([(Some ''pkg.spec'', Some ''m2''), (Some ''local.patch'', Some ''m1'')],
               Some ''x9''), [])"
    using link_policy [OF link, of "''never''" "Some ''x9''" "[]"]
      link_policy [OF link, of "''always''" "Some ''x9''" "[]"]
      link_policy [OF link, of "''auto''" "Some ''x9''" "[]"]
    by (simp add: example_crosses_project example_resolved_at target link_error_message_def
        policy info)
  have inside:
    "files_md5_revision example_registry (example_obs ''auto'') ''P'' ''own''
       = (Inr ([(Some ''_link'', Some ''n0''), (Some ''own.patch'', Some ''n1'')], Some ''4''),
          [])"
    using link_policy [OF own_link, of "Some ''y1''" "[]"] own_inside
    by (simp add: policy own_root)
  from cross inside show ?thesis
    by blast
qed

subsection \<open>The dedup behaviour of the registry-backed store\<close>

lemma storageobs_store_all_eq:
  "storageobs_store_all st package_path files =
     (st\<lparr>so_index := so_index st \<union> snd ` set files,
         so_sync := (if files = [] then so_sync st else False)\<rparr>,
      map (\<lambda>(filename, hash). Obs_upload (so_project st) [so_package st, hash]
             (From_file (package_path @ [filename])) (Some ''repository'')) files)"
proof (induction files arbitrary: st)
  case Nil
  then show ?case by simp
next
  case (Cons entry files)
  obtain filename hash where entry: "entry = (filename, hash)"
    by (cases entry)
  show ?case
    unfolding entry
    by (simp add: Cons.IH storageobs_store_def Un_commute insert_commute)
qed

lemma filter_upload_of_uploads:
  "filter upload_of
     (map (\<lambda>(filename, hash). Obs_upload p (path filename hash) (src filename hash) r) files)
     = map (\<lambda>(filename, hash). Obs_upload p (path filename hash) (src filename hash) r) files"
  by (induction files) auto

lemma filter_upload_of_deletes:
  "filter upload_of (map (\<lambda>(filename, hash). Git_delete package (Some filename)) files) = []"
  by (induction files) auto

lemma storageobs_store_files_run:
  "storageobs_store_files fails prefix tree st package files =
     (let existing =
            filter (\<lambda>(filename, hash). tree (prefix @ [package, filename]) \<noteq> None) files;
          uploads = map (\<lambda>(filename, hash). Obs_upload (so_project st) [so_package st, hash]
                      (From_file (prefix @ [package, filename])) (Some ''repository'')) existing;
          deletes = map (\<lambda>(filename, hash). Git_delete package (Some filename)) existing;
          manifest = Write_manifest (prefix @ [package, ''.obs'', ''files'']) (sort files);
          st' = st\<lparr>so_index := so_index st \<union> snd ` set existing,
                    so_sync := (if existing = [] then so_sync st else False)\<rparr>
      in
      if list_ex fails uploads then (Inl OperationFailed, st', uploads)
      else if list_ex fails deletes then (Inl OperationFailed, st', uploads @ deletes)
      else (if fails manifest then Inl OperationFailed else Inr (),
            st', uploads @ deletes @ [manifest]))"
  by (simp add: storageobs_store_files_def storageobs_store_all_eq gather_def Let_def)

text \<open>
  Claim C3, as stated, fails: \<^verbatim>\<open>store_files\<close> uploads every file of its argument list
  that exists in the package directory, whether or not the hash is in the index. Here
  the hash \<open>h1\<close> is in the index, the file \<open>old.bin\<close> is in the tree, and the upload of
  \<open>old.bin\<close> under the name \<open>h1\<close> is issued.
\<close>

theorem store_files_dedup_counterexample:
  "''h1'' \<in> so_index example_store
   \<and> Obs_upload ''home:u:storage'' [''files'', ''h1''] (From_file [''repo'', ''pkg'', ''old.bin''])
        (Some ''repository'')
      \<in> set (snd (snd (storageobs_store_files (\<lambda>call. False) [''repo''] example_tree
                 example_store ''pkg'' [(''old.bin'', ''h1'')])))"
  by (simp add: storageobs_store_files_def storageobs_store_def example_store_def
      example_tree_def gather_def)

text \<open>
  Claim C3, amended. For every call of \<^verbatim>\<open>store_files\<close> of the registry-backed store, the
  uploads issued are exactly those of the files of the argument list that exist in the
  package directory of the tree, each under the name of its hash, whether or not that
  hash is in the index; so for a file of the list that is not in the tree (such as a
  file that the export did not download because its hash is in the index) no upload is
  issued. The index grows by the hashes of the uploaded files, and a call that completes
  ends with the write of the pointer manifest, which lists every entry of the argument
  list in sorted order.
\<close>

theorem store_files_uploads_what_exists:
  assumes "storageobs_store_files fails prefix tree st package files = (result, st', trace)"
  shows "filter upload_of trace =
           map (\<lambda>(filename, hash). Obs_upload (so_project st) [so_package st, hash]
                  (From_file (prefix @ [package, filename])) (Some ''repository''))
             (filter (\<lambda>(filename, hash). tree (prefix @ [package, filename]) \<noteq> None) files)
    \<and> so_index st' = so_index st
          \<union> snd ` set (filter (\<lambda>(filename, hash). tree (prefix @ [package, filename]) \<noteq> None)
                         files)
    \<and> (result = Inr () \<longrightarrow>
          last trace = Write_manifest (prefix @ [package, ''.obs'', ''files'']) (sort files))"
proof -
  define existing where
    "existing = filter (\<lambda>(filename, hash). tree (prefix @ [package, filename]) \<noteq> None) files"
  define uploads where
    "uploads = map (\<lambda>(filename, hash). Obs_upload (so_project st) [so_package st, hash]
                  (From_file (prefix @ [package, filename])) (Some ''repository'')) existing"
  define deletes where
    "deletes = map (\<lambda>(filename, hash). Git_delete package (Some filename)) existing"
  define manifest where
    "manifest = Write_manifest (prefix @ [package, ''.obs'', ''files'']) (sort files)"
  define st1 where
    "st1 = st\<lparr>so_index := so_index st \<union> snd ` set existing,
               so_sync := (if existing = [] then so_sync st else False)\<rparr>"
  have run: "(result, st', trace) =
      (if list_ex fails uploads then (Inl OperationFailed, st1, uploads)
       else if list_ex fails deletes then (Inl OperationFailed, st1, uploads @ deletes)
       else (if fails manifest then Inl OperationFailed else Inr (),
             st1, uploads @ deletes @ [manifest]))"
    unfolding assms [symmetric] storageobs_store_files_run Let_def
      existing_def [symmetric] uploads_def [symmetric] deletes_def [symmetric]
      manifest_def [symmetric] st1_def [symmetric]
    by (rule refl)
  have up: "filter upload_of uploads = uploads"
    unfolding uploads_def by (rule filter_upload_of_uploads)
  have del: "filter upload_of deletes = []"
    unfolding deletes_def by (rule filter_upload_of_deletes)
  have man: "\<not> upload_of manifest"
    unfolding manifest_def by simp
  have "filter upload_of trace = uploads"
    using run up del man by (simp split: if_splits)
  moreover have "so_index st' = so_index st \<union> snd ` set existing"
    using run by (simp add: st1_def split: if_splits)
  moreover have "result = Inr () \<longrightarrow> last trace = manifest"
    using run by (simp split: if_splits)
  ultimately show ?thesis
    unfolding uploads_def existing_def manifest_def by blast
qed

theorem store_files_uploads_what_exists_witness:
  "storageobs_store_files (\<lambda>call. False) [''repo''] example_tree example_store ''pkg''
      [(''new.bin'', ''h1''), (''old.bin'', ''h2'')]
    = (Inr (), example_store\<lparr>so_index := {''h1'', ''h2''}, so_sync := False\<rparr>,
       [Obs_upload ''home:u:storage'' [''files'', ''h2'']
          (From_file [''repo'', ''pkg'', ''old.bin'']) (Some ''repository''),
        Git_delete ''pkg'' (Some ''old.bin''),
        Write_manifest [''repo'', ''pkg'', ''.obs'', ''files'']
          [(''new.bin'', ''h1''), (''old.bin'', ''h2'')]])
   \<and> filter upload_of (snd (snd (storageobs_store_files (\<lambda>call. False) [''repo''] example_tree
        example_store ''pkg'' [(''new.bin'', ''h1''), (''old.bin'', ''h2'')])))
      = [Obs_upload ''home:u:storage'' [''files'', ''h2'']
           (From_file [''repo'', ''pkg'', ''old.bin'']) (Some ''repository'')]"
proof -
  have run: "storageobs_store_files (\<lambda>call. False) [''repo''] example_tree example_store ''pkg''
      [(''new.bin'', ''h1''), (''old.bin'', ''h2'')]
    = (Inr (), example_store\<lparr>so_index := {''h1'', ''h2''}, so_sync := False\<rparr>,
       [Obs_upload ''home:u:storage'' [''files'', ''h2'']
          (From_file [''repo'', ''pkg'', ''old.bin'']) (Some ''repository''),
        Git_delete ''pkg'' (Some ''old.bin''),
        Write_manifest [''repo'', ''pkg'', ''.obs'', ''files'']
          [(''new.bin'', ''h1''), (''old.bin'', ''h2'')]])"
    by (simp add: storageobs_store_files_def storageobs_store_def example_store_def
        example_tree_def gather_def insert_commute)
  from store_files_uploads_what_exists [OF run] show ?thesis
    using run by (simp add: example_store_def example_tree_def)
qed

subsection \<open>Commits and failures of an export\<close>

lemma filter_map_none: "(\<And>x. \<not> P (f x)) \<Longrightarrow> filter P (map f xs) = []"
  by (induction xs) auto

lemma export_package_trace:
  "snd (export_package ex w project package) =
     (if list_ex (export_fails w) (export_package_meta ex w project package)
      then export_package_meta ex w project package
      else if list_ex (export_fails w) (export_package_ops ex w project package)
      then export_package_meta ex w project package @ export_package_ops ex w project package
      else export_package_meta ex w project package @ export_package_ops ex w project package
           @ [export_package_store ex w project package])"
  by (simp add: export_package_def gather_def Let_def)

lemma export_package_result:
  "fst (export_package ex w project package) =
     (if list_ex (export_fails w) (export_package_meta ex w project package)
         \<or> list_ex (export_fails w) (export_package_ops ex w project package)
         \<or> export_fails w (export_package_store ex w project package)
      then Inl OperationFailed else Inr ())"
  by (simp add: export_package_def gather_def Let_def)

lemma commit_request_meta:
  "filter commit_request (export_package_meta ex w project package) = []"
  by (simp add: export_package_meta_def export_package_metadata_def)

lemma commit_request_ops:
  "filter commit_request (export_package_ops ex w project package) = []"
  by (simp add: export_package_ops_def Let_def filter_map_none)

lemma commit_request_store: "\<not> commit_request (export_package_store ex w project package)"
  by (simp add: export_package_store_def Let_def)

lemma commit_request_package:
  "filter commit_request (snd (export_package ex w project package)) = []"
  by (simp add: export_package_trace commit_request_meta commit_request_ops
      commit_request_store)

lemma commit_request_project_meta:
  "filter commit_request (export_project_meta ex w project) = []"
  by (simp add: export_project_meta_def export_project_metadata_def filter_map_none)

lemma commit_request_packages:
  "filter commit_request
     (concat (map (\<lambda>package. snd (export_package ex w project package)) packages)) = []"
  by (induction packages) (simp_all add: commit_request_package)

lemma commit_request_body: "filter commit_request (export_project_body ex w project) = []"
  unfolding export_project_body_def
  by (simp add: commit_request_project_meta filter_map_none commit_request_packages)

lemma export_project_completes:
  assumes "fst (export_project ex w project) = Inr ()"
  shows "snd (export_project ex w project) = export_project_body ex w project @ [Storage_commit]"
  using assms
  by (simp add: export_project_def export_project_body_def gather_def Let_def comp_def
      split: if_splits)

lemma export_project_trace_cases:
  "snd (export_project ex w project) = export_project_meta ex w project
   \<or> snd (export_project ex w project) = export_project_body ex w project
   \<or> snd (export_project ex w project) = export_project_body ex w project @ [Storage_commit]"
  by (simp add: export_project_def export_project_body_def gather_def Let_def comp_def)

lemma store_call_meta: "filter store_call (export_package_meta ex w project package) = []"
  by (simp add: export_package_meta_def export_package_metadata_def)

lemma store_call_ops: "filter store_call (export_package_ops ex w project package) = []"
  by (simp add: export_package_ops_def Let_def filter_map_none)

lemma export_project_raises:
  assumes "package \<in> set (obs_packages w)"
    and "isl (fst (export_package ex w project package))"
  shows "isl (fst (export_project ex w project))
    \<and> (snd (export_project ex w project) = export_project_meta ex w project
        \<or> snd (export_project ex w project) = export_project_body ex w project)"
proof -
  have "list_ex (\<lambda>run. isl (fst run))
          (map (export_package ex w project) (remdups (obs_packages w)))"
    using assms by (auto simp add: list_ex_iff)
  then show ?thesis
    by (simp add: export_project_def export_project_body_def gather_def Let_def comp_def)
qed

lemma example_export_a:
  "export_package example_exporter example_world ''P'' ''a'' =
    (Inr (),
     [Obs_download ''P'' [''a'', ''a.spec''] [''repo'', ''packages'', ''a'', ''a.spec'']
        (Some ''3''),
      Obs_download ''P'' [''a'', ''a.tar.gz''] [''repo'', ''packages'', ''a'', ''a.tar.gz'']
        (Some ''3''),
      Git_delete ''a'' (Some ''old.patch''),
      Storage_store_files ''a'' [(''a.tar.gz'', ''m2'')]])"
  by code_simp

lemma example_export_b:
  "export_package example_exporter example_world ''P'' ''b'' =
    (Inr (),
     [Obs_download ''P'' [''b'', ''b.spec''] [''repo'', ''packages'', ''b'', ''b.spec'']
        (Some ''1''),
      Storage_store_files ''b'' []])"
  by code_simp

lemma example_export_project:
  "export_project example_exporter example_world ''P'' =
    (Inr (),
     [Obs_download ''P'' [''a'', ''a.spec''] [''repo'', ''packages'', ''a'', ''a.spec'']
        (Some ''3''),
      Obs_download ''P'' [''a'', ''a.tar.gz''] [''repo'', ''packages'', ''a'', ''a.tar.gz'']
        (Some ''3''),
      Git_delete ''a'' (Some ''old.patch''),
      Storage_store_files ''a'' [(''a.tar.gz'', ''m2'')],
      Obs_download ''P'' [''b'', ''b.spec''] [''repo'', ''packages'', ''b'', ''b.spec'']
        (Some ''1''),
      Storage_store_files ''b'' [],
      Git_delete ''c'' None,
      Storage_commit])"
  by code_simp

lemma example_export_a_fails:
  "export_package example_exporter failing_world ''P'' ''a'' =
    (Inl OperationFailed,
     [Obs_download ''P'' [''a'', ''a.spec''] [''repo'', ''packages'', ''a'', ''a.spec'']
        (Some ''3''),
      Obs_download ''P'' [''a'', ''a.tar.gz''] [''repo'', ''packages'', ''a'', ''a.tar.gz'']
        (Some ''3''),
      Git_delete ''a'' (Some ''old.patch'')])"
  by code_simp

text \<open>
  Claim C7, as stated, fails: an export of a project with two packages that completes
  makes one commit request, not three. No commit is requested per package, and the one
  request goes to the content store.
\<close>

theorem export_commit_counterexample:
  "fst (export_project example_exporter example_world ''P'') = Inr ()
   \<and> length (remdups (obs_packages example_world)) = 2
   \<and> length (filter commit_request (snd (export_project example_exporter example_world ''P'')))
       = 1"
  by (simp add: example_export_project) (simp add: example_world_def)

text \<open>
  Claim C7, amended. The export of a package requests no commit. An export of a project
  that completes has called \<^verbatim>\<open>commit\<close> of the content store exactly once, as its last
  call: after the project metadata, after every call of the exports of the registry's
  packages (downloads, deletions, \<^verbatim>\<open>store_files\<close>) and after the deletions of the
  packages that left the registry, none of which is a commit request. No export of a
  project requests more than one commit, and none is requested from the tree adapter,
  which has no such operation.
\<close>

theorem export_commit_discipline:
  "filter commit_request (snd (export_package ex w project package)) = []
   \<and> (fst (export_project ex w project) = Inr () \<longrightarrow>
        snd (export_project ex w project) = export_project_body ex w project @ [Storage_commit])
   \<and> filter commit_request (export_project_body ex w project) = []
   \<and> (package \<in> set (obs_packages w) \<longrightarrow>
        set (snd (export_package ex w project package))
          \<subseteq> set (export_project_body ex w project))
   \<and> length (filter commit_request (snd (export_project ex w project))) \<le> 1"
proof -
  have "length (filter commit_request (snd (export_project ex w project))) \<le> 1"
    using export_project_trace_cases [of ex w project]
    by (auto simp add: commit_request_body commit_request_project_meta)
  moreover have "package \<in> set (obs_packages w) \<longrightarrow>
        set (snd (export_package ex w project package))
          \<subseteq> set (export_project_body ex w project)"
    unfolding export_project_body_def by auto
  ultimately show ?thesis
    using commit_request_package export_project_completes commit_request_body by blast
qed

theorem export_commit_discipline_witness:
  "fst (export_project example_exporter example_world ''P'') = Inr ()
   \<and> ''a'' \<in> set (obs_packages example_world)
   \<and> snd (export_project example_exporter example_world ''P'')
       = export_project_body example_exporter example_world ''P'' @ [Storage_commit]
   \<and> set (snd (export_package example_exporter example_world ''P'' ''a''))
       \<subseteq> set (export_project_body example_exporter example_world ''P'')
   \<and> filter commit_request (snd (export_package example_exporter example_world ''P'' ''a'')) = []"
proof -
  have completes: "fst (export_project example_exporter example_world ''P'') = Inr ()"
    by (simp add: example_export_project)
  have member: "''a'' \<in> set (obs_packages example_world)"
    by (simp add: example_world_def)
  from export_commit_discipline [of example_exporter example_world "''P''" "''a''"]
    completes member
  show ?thesis
    by blast
qed

text \<open>
  Claim C8, as stated, fails: when the download of \<open>a.spec\<close> raises, the export of the
  package \<open>a\<close> raises as well and \<^verbatim>\<open>store_files\<close> is not called.
\<close>

theorem export_isolation_counterexample:
  "export_fails failing_world
     (Obs_download ''P'' [''a'', ''a.spec''] [''repo'', ''packages'', ''a'', ''a.spec'']
        (Some ''3''))
   \<and> fst (export_package example_exporter failing_world ''P'' ''a'') = Inl OperationFailed
   \<and> filter store_call (snd (export_package example_exporter failing_world ''P'' ''a'')) = []"
  by (simp add: example_export_a_fails) (simp add: failing_world_def)

text \<open>
  Claim C8, amended. The downloads and deletions of a package are started together. If
  one of them raises, the export of the package raises and does not call
  \<^verbatim>\<open>store_files\<close>; if neither they nor the metadata downloads raise, the calls of the
  export are the metadata downloads, the downloads and deletions, and then the one call
  of \<^verbatim>\<open>store_files\<close>. An export of a project in which the export of one of the registry's
  packages raises, raises as well and requests no commit.
\<close>

theorem export_failure_propagates:
  "(list_ex (export_fails w) (export_package_ops ex w project package) \<longrightarrow>
      isl (fst (export_package ex w project package))
      \<and> filter store_call (snd (export_package ex w project package)) = [])
   \<and> (\<not> list_ex (export_fails w) (export_package_meta ex w project package)
       \<and> \<not> list_ex (export_fails w) (export_package_ops ex w project package) \<longrightarrow>
      snd (export_package ex w project package)
        = export_package_meta ex w project package @ export_package_ops ex w project package
          @ [export_package_store ex w project package])
   \<and> (package \<in> set (obs_packages w) \<and> isl (fst (export_package ex w project package)) \<longrightarrow>
      isl (fst (export_project ex w project))
      \<and> filter commit_request (snd (export_project ex w project)) = [])"
proof -
  have "list_ex (export_fails w) (export_package_ops ex w project package) \<longrightarrow>
      isl (fst (export_package ex w project package))
      \<and> filter store_call (snd (export_package ex w project package)) = []"
    by (simp add: export_package_result export_package_trace store_call_meta store_call_ops)
  moreover have "\<not> list_ex (export_fails w) (export_package_meta ex w project package)
       \<and> \<not> list_ex (export_fails w) (export_package_ops ex w project package) \<longrightarrow>
      snd (export_package ex w project package)
        = export_package_meta ex w project package @ export_package_ops ex w project package
          @ [export_package_store ex w project package]"
    by (simp add: export_package_trace)
  moreover have "package \<in> set (obs_packages w)
       \<and> isl (fst (export_package ex w project package)) \<longrightarrow>
      isl (fst (export_project ex w project))
      \<and> filter commit_request (snd (export_project ex w project)) = []"
    using export_project_raises [of package w ex project]
    by (auto simp add: commit_request_body commit_request_project_meta)
  ultimately show ?thesis
    by blast
qed

theorem export_failure_propagates_witness:
  "list_ex (export_fails failing_world)
     (export_package_ops example_exporter failing_world ''P'' ''a'')
   \<and> ''a'' \<in> set (obs_packages failing_world)
   \<and> isl (fst (export_package example_exporter failing_world ''P'' ''a''))
   \<and> filter store_call (snd (export_package example_exporter failing_world ''P'' ''a'')) = []
   \<and> isl (fst (export_project example_exporter failing_world ''P''))
   \<and> filter commit_request (snd (export_project example_exporter failing_world ''P'')) = []
   \<and> snd (export_package example_exporter example_world ''P'' ''a'')
       = export_package_meta example_exporter example_world ''P'' ''a''
         @ export_package_ops example_exporter example_world ''P'' ''a''
         @ [export_package_store example_exporter example_world ''P'' ''a'']"
proof -
  have raises: "list_ex (export_fails failing_world)
      (export_package_ops example_exporter failing_world ''P'' ''a'')"
    by code_simp
  have member: "''a'' \<in> set (obs_packages failing_world)"
    by (simp add: failing_world_def example_world_def)
  have quiet:
    "\<not> list_ex (export_fails example_world)
         (export_package_meta example_exporter example_world ''P'' ''a'')"
    "\<not> list_ex (export_fails example_world)
         (export_package_ops example_exporter example_world ''P'' ''a'')"
    by code_simp+
  from export_failure_propagates [of failing_world example_exporter "''P''" "''a''"]
    raises member
  have failing:
    "isl (fst (export_package example_exporter failing_world ''P'' ''a''))
     \<and> filter store_call (snd (export_package example_exporter failing_world ''P'' ''a'')) = []
     \<and> isl (fst (export_project example_exporter failing_world ''P''))
     \<and> filter commit_request (snd (export_project example_exporter failing_world ''P'')) = []"
    by blast
  from export_failure_propagates [of example_world example_exporter "''P''" "''a''"] quiet
  have complete:
    "snd (export_package example_exporter example_world ''P'' ''a'')
       = export_package_meta example_exporter example_world ''P'' ''a''
         @ export_package_ops example_exporter example_world ''P'' ''a''
         @ [export_package_store example_exporter example_world ''P'' ''a'']"
    by blast
  from raises member failing complete show ?thesis
    by blast
qed

subsection \<open>Commits of an import\<close>

lemma commit_request_changes_uploads:
  "changes_uploads strftime imp tree project package files = Inr uploads
     \<Longrightarrow> filter commit_request uploads = []"
proof (induction files arbitrary: uploads)
  case Nil
  then show ?case by simp
next
  case (Cons entry files)
  obtain filename hash where entry: "entry = (filename, hash)"
    by (cases entry)
  from Cons.prems Cons.IH show ?case
    unfolding entry by (auto split: sum.splits)
qed

lemma commit_request_started:
  "filter commit_request
     (started (storage_transfer st hash project package filename obs params)) = []"
  by (cases st) (simp_all add: storageobs_transfer_def storagelfs_transfer_def)

lemma commit_request_transfers:
  "filter commit_request
     (concat (map started
        (map (\<lambda>(filename, hash). storage_transfer st hash project package filename obs params)
           files))) = []"
  by (induction files) (auto simp add: commit_request_started)

lemma set_minus_empty: "set xs \<subseteq> set ys \<Longrightarrow> set_minus xs ys = []"
  by (induction xs) (auto simp add: set_minus_def)

lemma import_package_commits:
  assumes "importer_git_files_md5 strftime md5_hex imp (iw_tree w) package (iw_git_files_md5 w)
             = Inr git_files"
  shows "filter commit_request (snd (import_package strftime md5_hex imp w project package)) = []
         \<and> (isl (fst (import_package strftime md5_hex imp w project package))
             \<or> (files_md5_upload (remdups git_files) (remdups (iw_obs_files_md5 w)) = []
                \<and> files_md5_transfer (pointer_entries w) (remdups (iw_obs_files_md5 w)) = []
                \<and> import_files_delete (remdups (iw_obs_files_md5 w)) (remdups git_files)
                     (pointer_entries w) = []))
     \<or> filter commit_request (snd (import_package strftime md5_hex imp w project package))
          = [import_commit imp project package (remdups git_files) (pointer_entries w)]
         \<and> (files_md5_upload (remdups git_files) (remdups (iw_obs_files_md5 w)) \<noteq> []
                \<or> files_md5_transfer (pointer_entries w) (remdups (iw_obs_files_md5 w)) \<noteq> []
                \<or> import_files_delete (remdups (iw_obs_files_md5 w)) (remdups git_files)
                     (pointer_entries w) \<noteq> [])"
proof -
  define G where "G = remdups git_files"
  define Ob where "Ob = remdups (iw_obs_files_md5 w)"
  define S where "S = pointer_entries w"
  define meta where "meta = import_package_meta imp w project package"
  define uploads where "uploads =
      map (\<lambda>(filename, hash). Obs_upload project [package, filename]
              (From_file ((imp_git_prefix imp @ [package]) @ [filename])) (Some ''repository''))
        (filter (\<lambda>(filename, hash). \<not> endswith filename ''.changes'') (files_md5_upload G Ob))"
  define transfers where "transfers =
      map (\<lambda>(filename, hash). storage_transfer (iw_storage w) hash project package filename
              (iw_obs_url w) [(''rev'', ''repository'')]) (files_md5_transfer S Ob)"
  define deletes where "deletes =
      map (\<lambda>filename. Obs_delete project [package, filename] (Some ''repository''))
        (import_files_delete Ob G S)"
  have me: "filter commit_request meta = []"
    unfolding meta_def by (simp add: import_package_meta_def)
  have up: "filter commit_request uploads = []"
    unfolding uploads_def by (rule filter_map_none) (simp split: prod.splits)
  have tr: "filter commit_request (concat (map started transfers)) = []"
    unfolding transfers_def by (rule commit_request_transfers)
  have del: "filter commit_request deletes = []"
    unfolding deletes_def by (rule filter_map_none) simp
  have co: "commit_request (import_commit imp project package G S)"
    by (simp add: import_commit_def)
  show ?thesis
  proof (cases "changes_uploads strftime imp (iw_tree w) project package
              (filter (\<lambda>(filename, hash). endswith filename ''.changes'')
                 (files_md5_upload G Ob))")
    case (Inl e)
    then have "import_package strftime md5_hex imp w project package
           = (fst (import_package strftime md5_hex imp w project package), meta)
        \<and> isl (fst (import_package strftime md5_hex imp w project package))"
      using assms unfolding G_def Ob_def meta_def
      by (simp add: import_package_def gather_def Let_def)
    then have
      "filter commit_request (snd (import_package strftime md5_hex imp w project package)) = []
        \<and> isl (fst (import_package strftime md5_hex imp w project package))"
      using me by (metis snd_conv)
    then show ?thesis
      by blast
  next
    case (Inr changes)
    define ops where "ops = uploads @ changes @ concat (map started transfers) @ deletes"
    have ch: "filter commit_request changes = []"
      using Inr by (rule commit_request_changes_uploads)
    have ops: "filter commit_request ops = []"
      unfolding ops_def using up ch tr del by simp
    have run: "import_package strftime md5_hex imp w project package =
        (if list_ex (iw_fails w) meta then (Inl OperationFailed, meta)
         else if is_lfs (iw_storage w) \<and> list_ex isl transfers then (Inl TypeError, meta)
         else if list_ex isl transfers then (Inl AssertionError, meta @ ops)
         else if list_ex (iw_fails w) ops then (Inl OperationFailed, meta @ ops)
         else if files_md5_upload G Ob \<noteq> [] \<or> files_md5_transfer S Ob \<noteq> []
                 \<or> import_files_delete Ob G S \<noteq> []
         then (if iw_fails w (import_commit imp project package G S)
               then Inl OperationFailed else Inr (),
               meta @ ops @ [import_commit imp project package G S])
         else (Inr (), meta @ ops))"
      using assms Inr
      unfolding import_package_def Let_def meta_def G_def Ob_def S_def ops_def uploads_def
        transfers_def deletes_def
      by (simp add: gather_def)
    show ?thesis
      unfolding G_def [symmetric] Ob_def [symmetric] S_def [symmetric]
      by (simp add: run me ops co)
  qed
qed

lemma import_package_fixed_point:
  assumes git: "importer_git_files_md5 strftime md5_hex imp (iw_tree w) package
                  (iw_git_files_md5 w) = Inr git_files"
    and same: "set (iw_obs_files_md5 w) = set git_files \<union> set (pointer_entries w)"
  shows "files_md5_upload (remdups git_files) (remdups (iw_obs_files_md5 w)) = []
    \<and> files_md5_transfer (pointer_entries w) (remdups (iw_obs_files_md5 w)) = []
    \<and> import_files_delete (remdups (iw_obs_files_md5 w)) (remdups git_files)
         (pointer_entries w) = []
    \<and> snd (import_package strftime md5_hex imp w project package)
         = import_package_meta imp w project package"
proof -
  have u: "files_md5_upload (remdups git_files) (remdups (iw_obs_files_md5 w)) = []"
    unfolding files_md5_upload_def using same by (intro set_minus_empty) auto
  have t: "files_md5_transfer (pointer_entries w) (remdups (iw_obs_files_md5 w)) = []"
    unfolding files_md5_transfer_def using same by (intro set_minus_empty) auto
  have "set (names_of (remdups (iw_obs_files_md5 w)))
          \<subseteq> set (names_of (remdups git_files)) \<union> set (names_of (pointer_entries w))"
    using same by (auto simp add: names_of_def)
  then have d: "import_files_delete (remdups (iw_obs_files_md5 w)) (remdups git_files)
                     (pointer_entries w) = []"
    unfolding import_files_delete_def
    by (intro set_minus_empty) (auto simp add: set_minus_def)
  have "snd (import_package strftime md5_hex imp w project package)
           = import_package_meta imp w project package"
    using git u t d
    by (simp add: import_package_def Let_def gather_def)
  with u t d show ?thesis
    by blast
qed

lemma example_first_import:
  "import_package example_strftime example_md5 example_importer first_import ''P'' ''pkg'' =
    (Inr (),
     [Obs_upload ''P'' [''pkg'', ''_meta''] (From_data ''<package/>'') None,
      Obs_upload ''P'' [''pkg'', ''pkg.spec'']
        (From_file [''repo'', ''packages'', ''pkg'', ''pkg.spec'']) (Some ''repository''),
      Obs_upload ''P'' [''pkg'', ''pkg.changes'']
        (From_data
          (''-------------------------------------------------------------------'' @ newline
           @ ''Thu Jan 01 00:00:00 UTC 1970 - Jane Doe <jane@example.org>'' @ newline @ newline
           @ ''- Last git synchronization: abc123'' @ newline @ newline @ ''old entries''))
        (Some ''repository''),
      Obs_transfer ''home:jane:storage'' ''files'' ''m5'' ''P'' ''pkg'' ''big.tar.gz''
        ''https://api'' [(''rev'', ''repository'')],
      Obs_delete ''P'' [''pkg'', ''gone.patch''] (Some ''repository''),
      Obs_command ''P'' [''pkg''] ''commitfilelist''
        [(''pkg.spec'', ''m2''), (''pkg.changes'', ''md5:seir''), (''big.tar.gz'', ''m5'')]
        ''jane'' ''Import abc123''])"
  by code_simp

lemma example_second_import:
  "import_package example_strftime example_md5 example_importer second_import ''P'' ''pkg'' =
    (Inr (), [Obs_upload ''P'' [''pkg'', ''_meta''] (From_data ''<package/>'') None])"
  by code_simp

text \<open>
  Claim C2, as stated, fails in its consequence: the first import ends with the commit
  of a manifest; the second import, of the same tree against the registry that lists
  exactly this manifest, computes three empty sets and issues no commit, but it still
  writes to the registry: it uploads the package's \<^verbatim>\<open>_meta\<close>.
\<close>

theorem import_idempotence_counterexample:
  "last (snd (import_package example_strftime example_md5 example_importer first_import
            ''P'' ''pkg''))
     = Obs_command ''P'' [''pkg''] ''commitfilelist'' (iw_obs_files_md5 second_import)
         ''jane'' ''Import abc123''
   \<and> fst (import_package example_strftime example_md5 example_importer second_import
            ''P'' ''pkg'') = Inr ()
   \<and> filter registry_write
        (snd (import_package example_strftime example_md5 example_importer second_import
            ''P'' ''pkg''))
     = [Obs_upload ''P'' [''pkg'', ''_meta''] (From_data ''<package/>'') None]"
  by (simp add: example_first_import example_second_import)
    (simp add: second_import_def first_import_def)

text \<open>
  Claim C2, amended. Let the hashes of the tree's files be computed (no changelog entry
  is missing). An import of a package that completes has issued the \<^verbatim>\<open>commitfilelist\<close>
  command exactly when one of the three sets (uploads, transfers, deletions) is not
  empty, and then once; no import issues it when the three sets are empty. The command
  carries the manifest with exactly the tree entries (with effective hashes) and the
  pointer entries, the user name and the comment \<^verbatim>\<open>Import <head id>\<close>. When the registry
  lists exactly the tree entries and the pointer entries, as after that commit, the three
  sets are empty and the only call of the import is the upload of the package's
  \<^verbatim>\<open>_meta\<close>, which is left out only when the package exists and
  \<^verbatim>\<open>skip_all_package_meta\<close> is set.
\<close>

theorem import_commit_iff_change:
  assumes "importer_git_files_md5 strftime md5_hex imp (iw_tree w) package (iw_git_files_md5 w)
             = Inr git_files"
  shows
    "(fst (import_package strftime md5_hex imp w project package) = Inr () \<longrightarrow>
        filter commit_request (snd (import_package strftime md5_hex imp w project package))
          = (if files_md5_upload (remdups git_files) (remdups (iw_obs_files_md5 w)) \<noteq> []
                \<or> files_md5_transfer (pointer_entries w) (remdups (iw_obs_files_md5 w)) \<noteq> []
                \<or> import_files_delete (remdups (iw_obs_files_md5 w)) (remdups git_files)
                     (pointer_entries w) \<noteq> []
             then [import_commit imp project package (remdups git_files) (pointer_entries w)]
             else []))
     \<and> (filter commit_request (snd (import_package strftime md5_hex imp w project package))
           \<noteq> [] \<longrightarrow>
          files_md5_upload (remdups git_files) (remdups (iw_obs_files_md5 w)) \<noteq> []
          \<or> files_md5_transfer (pointer_entries w) (remdups (iw_obs_files_md5 w)) \<noteq> []
          \<or> import_files_delete (remdups (iw_obs_files_md5 w)) (remdups git_files)
               (pointer_entries w) \<noteq> [])
     \<and> (\<exists>manifest.
          import_commit imp project package (remdups git_files) (pointer_entries w)
            = Obs_command project [package] ''commitfilelist'' manifest (imp_username imp)
                (''Import '' @ imp_head_hash imp)
          \<and> set manifest = set git_files \<union> set (pointer_entries w))
     \<and> (set (iw_obs_files_md5 w) = set git_files \<union> set (pointer_entries w) \<longrightarrow>
          files_md5_upload (remdups git_files) (remdups (iw_obs_files_md5 w)) = []
          \<and> files_md5_transfer (pointer_entries w) (remdups (iw_obs_files_md5 w)) = []
          \<and> import_files_delete (remdups (iw_obs_files_md5 w)) (remdups git_files)
               (pointer_entries w) = []
          \<and> snd (import_package strftime md5_hex imp w project package)
               = import_package_meta imp w project package)
     \<and> (iw_obs_exists w \<and> imp_skip_all_package_meta imp \<longrightarrow>
          import_package_meta imp w project package = [])"
proof -
  note commits = import_package_commits [OF assms, of project]
  have "fst (import_package strftime md5_hex imp w project package) = Inr () \<longrightarrow>
        filter commit_request (snd (import_package strftime md5_hex imp w project package))
          = (if files_md5_upload (remdups git_files) (remdups (iw_obs_files_md5 w)) \<noteq> []
                \<or> files_md5_transfer (pointer_entries w) (remdups (iw_obs_files_md5 w)) \<noteq> []
                \<or> import_files_delete (remdups (iw_obs_files_md5 w)) (remdups git_files)
                     (pointer_entries w) \<noteq> []
             then [import_commit imp project package (remdups git_files) (pointer_entries w)]
             else [])"
    using commits by auto
  moreover have
    "filter commit_request (snd (import_package strftime md5_hex imp w project package))
           \<noteq> [] \<longrightarrow>
          files_md5_upload (remdups git_files) (remdups (iw_obs_files_md5 w)) \<noteq> []
          \<or> files_md5_transfer (pointer_entries w) (remdups (iw_obs_files_md5 w)) \<noteq> []
          \<or> import_files_delete (remdups (iw_obs_files_md5 w)) (remdups git_files)
               (pointer_entries w) \<noteq> []"
    using commits by auto
  moreover have "\<exists>manifest.
          import_commit imp project package (remdups git_files) (pointer_entries w)
            = Obs_command project [package] ''commitfilelist'' manifest (imp_username imp)
                (''Import '' @ imp_head_hash imp)
          \<and> set manifest = set git_files \<union> set (pointer_entries w)"
    by (simp add: import_commit_def)
  moreover have "set (iw_obs_files_md5 w) = set git_files \<union> set (pointer_entries w) \<longrightarrow>
          files_md5_upload (remdups git_files) (remdups (iw_obs_files_md5 w)) = []
          \<and> files_md5_transfer (pointer_entries w) (remdups (iw_obs_files_md5 w)) = []
          \<and> import_files_delete (remdups (iw_obs_files_md5 w)) (remdups git_files)
               (pointer_entries w) = []
          \<and> snd (import_package strftime md5_hex imp w project package)
               = import_package_meta imp w project package"
    using import_package_fixed_point [OF assms] by blast
  moreover have "iw_obs_exists w \<and> imp_skip_all_package_meta imp \<longrightarrow>
          import_package_meta imp w project package = []"
    by (simp add: import_package_meta_def)
  ultimately show ?thesis
    by blast
qed

theorem import_commit_iff_change_witness:
  "importer_git_files_md5 example_strftime example_md5 example_importer (iw_tree first_import)
      ''pkg'' (iw_git_files_md5 first_import)
     = Inr [(''pkg.spec'', ''m2''), (''pkg.changes'', ''md5:seir'')]
   \<and> fst (import_package example_strftime example_md5 example_importer first_import
            ''P'' ''pkg'') = Inr ()
   \<and> files_md5_upload (remdups [(''pkg.spec'', ''m2''), (''pkg.changes'', ''md5:seir'')])
        (remdups (iw_obs_files_md5 first_import)) \<noteq> []
   \<and> filter commit_request
        (snd (import_package example_strftime example_md5 example_importer first_import
            ''P'' ''pkg''))
     = [import_commit example_importer ''P'' ''pkg''
          (remdups [(''pkg.spec'', ''m2''), (''pkg.changes'', ''md5:seir'')])
          (pointer_entries first_import)]
   \<and> set (iw_obs_files_md5 second_import)
       = set [(''pkg.spec'', ''m2''), (''pkg.changes'', ''md5:seir'')]
         \<union> set (pointer_entries second_import)
   \<and> snd (import_package example_strftime example_md5 example_importer second_import
            ''P'' ''pkg'')
     = import_package_meta example_importer second_import ''P'' ''pkg''
   \<and> snd (import_package example_strftime example_md5 skipping_importer second_import
            ''P'' ''pkg'') = []"
proof -
  have git1: "importer_git_files_md5 example_strftime example_md5 example_importer
      (iw_tree first_import) ''pkg'' (iw_git_files_md5 first_import)
     = Inr [(''pkg.spec'', ''m2''), (''pkg.changes'', ''md5:seir'')]"
    by code_simp
  have git2: "importer_git_files_md5 example_strftime example_md5 example_importer
      (iw_tree second_import) ''pkg'' (iw_git_files_md5 second_import)
     = Inr [(''pkg.spec'', ''m2''), (''pkg.changes'', ''md5:seir'')]"
    by code_simp
  have git3: "importer_git_files_md5 example_strftime example_md5 skipping_importer
      (iw_tree second_import) ''pkg'' (iw_git_files_md5 second_import)
     = Inr [(''pkg.spec'', ''m2''), (''pkg.changes'', ''md5:seir'')]"
    by code_simp
  have completes: "fst (import_package example_strftime example_md5 example_importer
      first_import ''P'' ''pkg'') = Inr ()"
    by (simp add: example_first_import)
  have changed:
    "files_md5_upload (remdups [(''pkg.spec'', ''m2''), (''pkg.changes'', ''md5:seir'')])
        (remdups (iw_obs_files_md5 first_import)) \<noteq> []"
    by code_simp
  have same: "set (iw_obs_files_md5 second_import)
       = set [(''pkg.spec'', ''m2''), (''pkg.changes'', ''md5:seir'')]
         \<union> set (pointer_entries second_import)"
    by code_simp
  have skips: "iw_obs_exists second_import \<and> imp_skip_all_package_meta skipping_importer"
    by code_simp
  from import_commit_iff_change [OF git1, of "''P''"] completes changed
  have first: "filter commit_request
        (snd (import_package example_strftime example_md5 example_importer first_import
            ''P'' ''pkg''))
     = [import_commit example_importer ''P'' ''pkg''
          (remdups [(''pkg.spec'', ''m2''), (''pkg.changes'', ''md5:seir'')])
          (pointer_entries first_import)]"
    by presburger
  from import_commit_iff_change [OF git2, of "''P''"] same
  have second: "snd (import_package example_strftime example_md5 example_importer second_import
            ''P'' ''pkg'')
     = import_package_meta example_importer second_import ''P'' ''pkg''"
    by blast
  from import_commit_iff_change [OF git3, of "''P''"] same skips
  have third: "snd (import_package example_strftime example_md5 skipping_importer second_import
            ''P'' ''pkg'') = []"
    by presburger
  from git1 completes changed first same second third show ?thesis
    by blast
qed

end
